theory Spec2Isabelle
  imports Main
begin

section \<open>The FIFO queue of tda\_cola.py\<close>

text \<open>
  \<^verbatim>\<open>ColaMisiones\<close> wraps a \<^verbatim>\<open>collections.deque\<close> of mission ids. The deque is the list
  of its elements from left to right; every method takes the queue and returns its result
  together with the queue it leaves behind. \<^verbatim>\<open>popleft()\<close> and \<^verbatim>\<open>items[0]\<close> raise
  \<^verbatim>\<open>IndexError\<close> on an empty deque: only the \<^verbatim>\<open>is_empty\<close> test in front of them keeps
  \<^verbatim>\<open>dequeue\<close> and \<^verbatim>\<open>first\<close> from raising.
\<close>

record ColaMisiones =
  items :: "int list"

datatype cola_error = IndexError

definition cola_init :: ColaMisiones where
  "cola_init = \<lparr>items = []\<rparr>"

definition is_empty :: "ColaMisiones \<Rightarrow> bool" where
  "is_empty c = (length (items c) = 0)"

definition size_cola :: "ColaMisiones \<Rightarrow> nat" where
  "size_cola c = length (items c)"

definition enqueue :: "int \<Rightarrow> ColaMisiones \<Rightarrow> ColaMisiones" where
  "enqueue mission_id c = c\<lparr>items := items c @ [mission_id]\<rparr>"

definition popleft :: "ColaMisiones \<Rightarrow> (cola_error + int) \<times> ColaMisiones" where
  "popleft c =
     (case items c of
        [] \<Rightarrow> (Inl IndexError, c)
      | x # rest \<Rightarrow> (Inr x, c\<lparr>items := rest\<rparr>))"

definition dequeue :: "ColaMisiones \<Rightarrow> (cola_error + int option) \<times> ColaMisiones" where
  "dequeue c =
     (if \<not> is_empty c then
        (case popleft c of
           (Inl e, c') \<Rightarrow> (Inl e, c')
         | (Inr x, c') \<Rightarrow> (Inr (Some x), c'))
      else (Inr None, c))"

definition first :: "ColaMisiones \<Rightarrow> cola_error + int option" where
  "first c =
     (if \<not> is_empty c then
        (case items c of [] \<Rightarrow> Inl IndexError | x # _ \<Rightarrow> Inr (Some x))
      else Inr None)"

text \<open>A client's calls, and the run of a sequence of them: an exception ends the run;
  otherwise the values handed out by the \<^verbatim>\<open>dequeue\<close> calls are collected in call order.\<close>

datatype cola_op = Enqueue int | Dequeue

fun cola_run :: "cola_op list \<Rightarrow> ColaMisiones \<Rightarrow> cola_error + int list \<times> ColaMisiones" where
  "cola_run [] c = Inr ([], c)"
| "cola_run (Enqueue x # ops) c = cola_run ops (enqueue x c)"
| "cola_run (Dequeue # ops) c =
     (case dequeue c of
        (Inl e, c') \<Rightarrow> Inl e
      | (Inr None, c') \<Rightarrow> cola_run ops c'
      | (Inr (Some x), c') \<Rightarrow>
          (case cola_run ops c' of
             Inl e \<Rightarrow> Inl e
           | Inr (out, c'') \<Rightarrow> Inr (x # out, c'')))"

fun enqueued :: "cola_op list \<Rightarrow> int list" where
  "enqueued [] = []"
| "enqueued (Enqueue x # ops) = x # enqueued ops"
| "enqueued (Dequeue # ops) = enqueued ops"


section \<open>The tables of database.py\<close>

text \<open>
  One record per table row; a table is the list of its rows in insertion order. Column
  names are the source's, with a suffix where two tables share a name
  (\<^verbatim>\<open>Personaje.id\<close> is \<open>id_p\<close>, \<^verbatim>\<open>Mision.id\<close> is \<open>id_m\<close>, \<^verbatim>\<open>Mision.xp\<close> is \<open>xp_m\<close>,
  the columns of the completed table end in \<open>_c\<close>).
\<close>

record personaje =
  id_p :: int
  nombre :: string
  xp :: int
  mision_activa_id :: "int option"

record mision =
  id_m :: int
  titulo :: string
  xp_m :: int

record pendiente =
  personaje_id :: int
  mision_id :: int
  orden :: int

record completada =
  personaje_id_c :: int
  mision_id_c :: int

record db =
  personajes :: "personaje list"
  misiones :: "mision list"
  personaje_misiones_pendientes :: "pendiente list"
  personaje_misiones_completadas :: "completada list"

definition db_vacia :: db where
  "db_vacia = \<lparr>personajes = [], misiones = [],
     personaje_misiones_pendientes = [], personaje_misiones_completadas = []\<rparr>"

text \<open>
  Every failure of an endpoint is a value. The handlers wrap whatever was raised inside
  their \<^verbatim>\<open>try\<close> block into a new \<^verbatim>\<open>HTTPException\<close> whose detail quotes the original
  exception, so a detail can carry the exception it was built from.
  \<open>IntegrityError\<close> is the storage refusing a row whose primary key is taken;
  \<open>RequestValidationError\<close> is the framework refusing a query parameter that breaks the
  bounds declared in the signature (\<^verbatim>\<open>min_length=3\<close>, \<^verbatim>\<open>gt=0\<close>), before the handler runs;
  \<open>OverflowError\<close> is the storage's driver refusing to bind an integer outside the 64-bit
  range of an \<^verbatim>\<open>INTEGER\<close> column.
\<close>

datatype exn =
    HTTPException int detail
  | IntegrityError
  | OverflowError
  | RequestValidationError
and detail =
    El_nombre_es_requerido
  | Ya_existe_un_personaje_con_este_nombre
  | Ya_existe_una_mision_con_este_titulo
  | Personaje_no_encontrado
  | Mision_no_encontrada
  | El_personaje_no_tiene_mision_activa
  | Mision_activa_no_encontrada
  | Error_creando_personaje exn
  | Error_creando_mision exn
  | Error_asignando_mision exn
  | Error_completando_mision exn
  | Error_obteniendo_misiones_disponibles exn
  | Error_interno_al_obtener_misiones exn

subsection \<open>Queries\<close>

text \<open>The integers that an \<^verbatim>\<open>INTEGER\<close> column and a bound parameter can hold. Python's
  integers are unbounded, so a handler can be called with an id, and can compute a sum,
  outside this range.\<close>

definition int64 :: "int \<Rightarrow> bool" where
  "int64 n = (- 9223372036854775808 \<le> n \<and> n \<le> 9223372036854775807)"

text \<open>The row of a table with a given primary key.\<close>

definition fila_personaje :: "db \<Rightarrow> int \<Rightarrow> personaje option" where
  "fila_personaje d pid = find (\<lambda>p. id_p p = pid) (personajes d)"

definition fila_mision :: "db \<Rightarrow> int \<Rightarrow> mision option" where
  "fila_mision d mid = find (\<lambda>m. id_m m = mid) (misiones d)"

text \<open>\<^verbatim>\<open>db.query(Personaje).get(personaje_id)\<close> and \<^verbatim>\<open>db.query(Mision).get(mision_id)\<close>
  bind the id as a parameter of the \<^verbatim>\<open>SELECT\<close>: an id outside the 64-bit range raises
  \<^verbatim>\<open>OverflowError\<close>, any other id gives the row or \<^verbatim>\<open>None\<close>.\<close>

definition get_personaje :: "db \<Rightarrow> int \<Rightarrow> exn + personaje option" where
  "get_personaje d pid = (if int64 pid then Inr (fila_personaje d pid) else Inl OverflowError)"

definition get_mision :: "db \<Rightarrow> int \<Rightarrow> exn + mision option" where
  "get_mision d mid = (if int64 mid then Inr (fila_mision d mid) else Inl OverflowError)"

text \<open>
  The active mission of a character as every handler reads the column: the tests are
  \<^verbatim>\<open>if not personaje.mision_activa_id\<close> and \<^verbatim>\<open>if personaje.mision_activa_id\<close>, so both
  \<^verbatim>\<open>None\<close> and \<^verbatim>\<open>0\<close> mean that there is no active mission.
\<close>

definition activa :: "personaje \<Rightarrow> int option" where
  "activa p =
     (case mision_activa_id p of
        None \<Rightarrow> None
      | Some a \<Rightarrow> if a = 0 then None else Some a)"

text \<open>The rows of the two association tables that belong to one character, and the
  mission ids in them.\<close>

definition filas_pendientes :: "db \<Rightarrow> int \<Rightarrow> pendiente list" where
  "filas_pendientes d pid =
     filter (\<lambda>r. personaje_id r = pid) (personaje_misiones_pendientes d)"

definition pendientes_de :: "db \<Rightarrow> int \<Rightarrow> int list" where
  "pendientes_de d pid = map mision_id (filas_pendientes d pid)"

definition completadas_de :: "db \<Rightarrow> int \<Rightarrow> int list" where
  "completadas_de d pid =
     map mision_id_c (filter (\<lambda>r. personaje_id_c r = pid) (personaje_misiones_completadas d))"

text \<open>\<^verbatim>\<open>SELECT MAX(orden) ... WHERE personaje_id = :pid\<close> is \<^verbatim>\<open>NULL\<close> on no rows, and
  \<^verbatim>\<open>.scalar() or 0\<close> turns \<^verbatim>\<open>None\<close> (and \<^verbatim>\<open>0\<close>) into \<^verbatim>\<open>0\<close>.\<close>

definition sql_max :: "int list \<Rightarrow> int option" where
  "sql_max xs = (case xs of [] \<Rightarrow> None | x # ys \<Rightarrow> Some (fold max ys x))"

definition or_0 :: "int option \<Rightarrow> int" where
  "or_0 v = (case v of None \<Rightarrow> 0 | Some n \<Rightarrow> if n = 0 then 0 else n)"

text \<open>\<^verbatim>\<open>... ORDER BY orden ASC LIMIT 1\<close>: a row of least \<open>orden\<close>, the earliest inserted
  one among equals; \<^verbatim>\<open>fetchone()\<close> is \<^verbatim>\<open>None\<close> when there is no row.\<close>

fun primera_por_orden :: "pendiente list \<Rightarrow> pendiente option" where
  "primera_por_orden [] = None"
| "primera_por_orden (r # rs) =
     (case primera_por_orden rs of
        None \<Rightarrow> Some r
      | Some r' \<Rightarrow> if orden r \<le> orden r' then Some r else Some r')"

text \<open>The storage gives a new row the next integer primary key: 1 in an empty table, one
  more than the largest key in use otherwise. These keys and the sequence numbers
  \<open>orden\<close> start at 1 and grow by one for each row inserted, so they stay inside the
  64-bit range in every database that the handlers can build; they are not bounded here.\<close>

definition next_id :: "int list \<Rightarrow> int" where
  "next_id ids = (case ids of [] \<Rightarrow> 1 | x # ys \<Rightarrow> fold max ys x + 1)"

text \<open>Committing a changed \<^verbatim>\<open>Personaje\<close> object writes the row with its primary key.\<close>

definition actualizar_personaje :: "int \<Rightarrow> (personaje \<Rightarrow> personaje) \<Rightarrow> db \<Rightarrow> db" where
  "actualizar_personaje pid f d =
     d\<lparr>personajes := map (\<lambda>p. if id_p p = pid then f p else p) (personajes d)\<rparr>"


section \<open>The endpoints of main.py\<close>

text \<open>
  A handler takes the database and returns its response (\<open>Inl\<close> the exception that
  reaches the client) with the database after the call. Every \<^verbatim>\<open>except\<close> branch calls
  \<^verbatim>\<open>db.rollback()\<close> before the commit, so a failed call returns the database it was given.
  The changes made to a \<^verbatim>\<open>Personaje\<close> or \<^verbatim>\<open>Mision\<close> object are written at the commit,
  after the statements the handler executes itself; a value outside the 64-bit range
  fails there.
\<close>

record personaje_creado =
  pc_id :: int
  pc_nombre :: string
  pc_xp :: int

text \<open>The request body is a dict; \<open>nombre\<close> is \<^verbatim>\<open>personaje.get("nombre")\<close>.\<close>

definition crear_personaje :: "string option \<Rightarrow> db \<Rightarrow> (exn + personaje_creado) \<times> db" where
  "crear_personaje nombre_opt d =
     (case nombre_opt of
        None \<Rightarrow>
          (Inl (HTTPException 400 (Error_creando_personaje
             (HTTPException 400 El_nombre_es_requerido))), d)
      | Some n \<Rightarrow>
          if n = [] then
            (Inl (HTTPException 400 (Error_creando_personaje
               (HTTPException 400 El_nombre_es_requerido))), d)
          else if find (\<lambda>p. nombre p = n) (personajes d) \<noteq> None then
            (Inl (HTTPException 400 (Error_creando_personaje
               (HTTPException 400 Ya_existe_un_personaje_con_este_nombre))), d)
          else
            (let nuevo_personaje =
               \<lparr>id_p = next_id (map id_p (personajes d)), nombre = n, xp = 0,
                mision_activa_id = None\<rparr>
             in (Inr \<lparr>pc_id = id_p nuevo_personaje, pc_nombre = nombre nuevo_personaje,
                      pc_xp = xp nuevo_personaje\<rparr>,
                 d\<lparr>personajes := personajes d @ [nuevo_personaje]\<rparr>)))"

definition crear_mision :: "string \<Rightarrow> int \<Rightarrow> db \<Rightarrow> (exn + mision) \<times> db" where
  "crear_mision t x d =
     (if length t < 3 \<or> \<not> 0 < x then (Inl RequestValidationError, d)
      else if find (\<lambda>m. titulo m = t) (misiones d) \<noteq> None then
        (Inl (HTTPException 400 (Error_creando_mision
           (HTTPException 400 Ya_existe_una_mision_con_este_titulo))), d)
      else if \<not> int64 x then
        (Inl (HTTPException 400 (Error_creando_mision OverflowError)), d)
      else
        (let mission = \<lparr>id_m = next_id (map id_m (misiones d)), titulo = t, xp_m = x\<rparr>
         in (Inr mission, d\<lparr>misiones := misiones d @ [mission]\<rparr>)))"

definition listar_misiones_disponibles :: "int \<Rightarrow> db \<Rightarrow> (exn + mision list) \<times> db" where
  "listar_misiones_disponibles pid d =
     (case get_personaje d pid of
        Inl e \<Rightarrow> (Inl (HTTPException 500 (Error_obteniendo_misiones_disponibles e)), d)
      | Inr None \<Rightarrow>
          (Inl (HTTPException 500 (Error_obteniendo_misiones_disponibles
             (HTTPException 404 Personaje_no_encontrado))), d)
      | Inr (Some p) \<Rightarrow>
          (Inr (filter
                  (\<lambda>m. id_m m \<notin> set (pendientes_de d pid) \<and>
                       id_m m \<notin> set (completadas_de d pid) \<and>
                       (case activa p of None \<Rightarrow> True | Some a \<Rightarrow> id_m m \<noteq> a))
                  (misiones d)), d))"

record misiones_personaje =
  mp_mision_activa :: "mision option"
  mp_misiones_pendientes :: "mision list"
  mp_misiones_completadas :: "mision list"
  mp_misiones_disponibles :: "mision list"

text \<open>The two relationships join the association rows with the mission table. The
  pending one is ordered by \<open>orden\<close>; the completed one has no ordering of its own and comes
  in the order of the mission table's key. An exception that is not an
  \<^verbatim>\<open>HTTPException\<close> is wrapped into a 500 response.\<close>

definition listar_misiones_personaje :: "int \<Rightarrow> db \<Rightarrow> (exn + misiones_personaje) \<times> db" where
  "listar_misiones_personaje pid d =
     (case get_personaje d pid of
        Inl e \<Rightarrow> (Inl (HTTPException 500 (Error_interno_al_obtener_misiones e)), d)
      | Inr None \<Rightarrow> (Inl (HTTPException 404 Personaje_no_encontrado), d)
      | Inr (Some p) \<Rightarrow>
          (case (case activa p of None \<Rightarrow> Inr None
                 | Some a \<Rightarrow>
                     (case get_mision d a of
                        Inl e \<Rightarrow> Inl (HTTPException 500 (Error_interno_al_obtener_misiones e))
                      | Inr None \<Rightarrow> Inl (HTTPException 500 Mision_activa_no_encontrada)
                      | Inr (Some m) \<Rightarrow> Inr (Some m))) of
             Inl e \<Rightarrow> (Inl e, d)
           | Inr mision_activa \<Rightarrow>
               (Inr \<lparr>mp_mision_activa = mision_activa,
                     mp_misiones_pendientes =
                       List.map_filter (fila_mision d)
                         (map mision_id (sort_key orden (filas_pendientes d pid))),
                     mp_misiones_completadas =
                       sort_key id_m (List.map_filter (fila_mision d) (completadas_de d pid)),
                     mp_misiones_disponibles =
                       filter
                         (\<lambda>m. id_m m \<notin> set (pendientes_de d pid) \<and>
                              id_m m \<notin> set (completadas_de d pid) \<and>
                              id_m m \<noteq> (case activa p of None \<Rightarrow> 0 | Some a \<Rightarrow> a))
                         (misiones d)\<rparr>, d)))"

record asignacion =
  mision_activa :: bool
  en_cola :: bool

definition asignar_mision :: "int \<Rightarrow> int \<Rightarrow> db \<Rightarrow> (exn + asignacion) \<times> db" where
  "asignar_mision pid mid d =
     (case get_personaje d pid of
        Inl e \<Rightarrow> (Inl (HTTPException 400 (Error_asignando_mision e)), d)
      | Inr None \<Rightarrow>
          (Inl (HTTPException 400 (Error_asignando_mision
             (HTTPException 404 Personaje_no_encontrado))), d)
      | Inr (Some p) \<Rightarrow>
          (case get_mision d mid of
             Inl e \<Rightarrow> (Inl (HTTPException 400 (Error_asignando_mision e)), d)
           | Inr None \<Rightarrow>
               (Inl (HTTPException 400 (Error_asignando_mision
                  (HTTPException 404 Mision_no_encontrada))), d)
           | Inr (Some m) \<Rightarrow>
               (case activa p of
                  None \<Rightarrow>
                    (Inr \<lparr>mision_activa = True, en_cola = False\<rparr>,
                     actualizar_personaje pid (\<lambda>q. q\<lparr>mision_activa_id := Some mid\<rparr>) d)
                | Some a \<Rightarrow>
                    (let max_orden = or_0 (sql_max (map orden (filas_pendientes d pid)))
                     in if mid \<in> set (pendientes_de d pid) then
                          (Inl (HTTPException 400 (Error_asignando_mision IntegrityError)), d)
                        else
                          (Inr \<lparr>mision_activa = (mision_activa_id p = Some mid),
                                en_cola = (mision_activa_id p \<noteq> Some mid)\<rparr>,
                           d\<lparr>personaje_misiones_pendientes :=
                               personaje_misiones_pendientes d @
                                 [\<lparr>personaje_id = pid, mision_id = mid,
                                   orden = max_orden + 1\<rparr>]\<rparr>)))))"

record completado =
  xp_ganada :: int
  xp_total :: int

definition completar_mision :: "int \<Rightarrow> db \<Rightarrow> (exn + completado) \<times> db" where
  "completar_mision pid d =
     (case get_personaje d pid of
        Inl e \<Rightarrow> (Inl (HTTPException 500 (Error_completando_mision e)), d)
      | Inr None \<Rightarrow>
          (Inl (HTTPException 500 (Error_completando_mision
             (HTTPException 404 Personaje_no_encontrado))), d)
      | Inr (Some p) \<Rightarrow>
          (case activa p of
             None \<Rightarrow>
               (Inl (HTTPException 500 (Error_completando_mision
                  (HTTPException 400 El_personaje_no_tiene_mision_activa))), d)
           | Some a \<Rightarrow>
               (case get_mision d a of
                  Inl e \<Rightarrow> (Inl (HTTPException 500 (Error_completando_mision e)), d)
                | Inr None \<Rightarrow>
                    (Inl (HTTPException 500 (Error_completando_mision
                       (HTTPException 404 Mision_activa_no_encontrada))), d)
                | Inr (Some m) \<Rightarrow>
                    (let siguiente_mision = primera_por_orden (filas_pendientes d pid);
                         xp_ganada = xp_m m
                     in if a \<in> set (completadas_de d pid) then
                          (Inl (HTTPException 500 (Error_completando_mision IntegrityError)), d)
                        else if \<not> int64 (xp p + xp_ganada) then
                          (Inl (HTTPException 500 (Error_completando_mision OverflowError)), d)
                        else
                          (let d1 = d\<lparr>personaje_misiones_completadas :=
                                        personaje_misiones_completadas d @
                                          [\<lparr>personaje_id_c = pid, mision_id_c = a\<rparr>]\<rparr>;
                               d2 = (case siguiente_mision of
                                       Some r \<Rightarrow>
                                         (actualizar_personaje pid
                                            (\<lambda>q. q\<lparr>xp := xp q + xp_ganada,
                                                   mision_activa_id := Some (mision_id r)\<rparr>) d1)
                                         \<lparr>personaje_misiones_pendientes :=
                                            filter
                                              (\<lambda>x. \<not> (personaje_id x = pid \<and>
                                                       mision_id x = mision_id r))
                                              (personaje_misiones_pendientes d1)\<rparr>
                                     | None \<Rightarrow>
                                         actualizar_personaje pid
                                           (\<lambda>q. q\<lparr>xp := xp q + xp_ganada,
                                                  mision_activa_id := None\<rparr>) d1)
                           in (Inr \<lparr>xp_ganada = xp_ganada, xp_total = xp p + xp_ganada\<rparr>,
                               d2))))))"

subsection \<open>Sequences of calls\<close>

datatype op =
    Crear_personaje "string option"
  | Crear_mision string int
  | Asignar int int
  | Completar int
  | Disponibles int
  | Estado int

fun ejecutar :: "op \<Rightarrow> db \<Rightarrow> db" where
  "ejecutar (Crear_personaje n) d = snd (crear_personaje n d)"
| "ejecutar (Crear_mision t x) d = snd (crear_mision t x d)"
| "ejecutar (Asignar pid mid) d = snd (asignar_mision pid mid d)"
| "ejecutar (Completar pid) d = snd (completar_mision pid d)"
| "ejecutar (Disponibles pid) d = snd (listar_misiones_disponibles pid d)"
| "ejecutar (Estado pid) d = snd (listar_misiones_personaje pid d)"

definition ejecutar_todas :: "op list \<Rightarrow> db \<Rightarrow> db" where
  "ejecutar_todas ops d = fold ejecutar ops d"


subsection \<open>Properties of a character's progression record\<close>

text \<open>
  The record of character \<open>pid\<close> is well formed when its pending queue has no repeated
  entry, no pending mission is completed, and the active mission (when there is one) is
  neither pending nor completed.
\<close>

definition invariante :: "db \<Rightarrow> int \<Rightarrow> bool" where
  "invariante d pid =
     (distinct (pendientes_de d pid) \<and>
      list_all (\<lambda>x. x \<notin> set (completadas_de d pid)) (pendientes_de d pid) \<and>
      (case fila_personaje d pid of
         None \<Rightarrow> True
       | Some p \<Rightarrow>
           (case activa p of
              None \<Rightarrow> True
            | Some a \<Rightarrow> a \<notin> set (pendientes_de d pid) \<and> a \<notin> set (completadas_de d pid))))"

text \<open>A mission is held by a character when it is its active mission, in its pending
  queue or among its completed missions.\<close>

definition retenida :: "db \<Rightarrow> int \<Rightarrow> int \<Rightarrow> bool" where
  "retenida d pid mid =
     (mid \<in> set (pendientes_de d pid) \<or> mid \<in> set (completadas_de d pid) \<or>
      (case fila_personaje d pid of None \<Rightarrow> False | Some p \<Rightarrow> activa p = Some mid))"

text \<open>A sequence of calls in which every assignment is of a mission that the character
  does not hold at that moment.\<close>

fun sin_reasignar :: "db \<Rightarrow> op list \<Rightarrow> bool" where
  "sin_reasignar d [] = True"
| "sin_reasignar d (Asignar pid mid # ops) =
     (\<not> retenida d pid mid \<and> sin_reasignar (ejecutar (Asignar pid mid) d) ops)"
| "sin_reasignar d (c # ops) = sin_reasignar (ejecutar c d) ops"

text \<open>Rewards are positive and experience is not negative.\<close>

definition xp_validos :: "db \<Rightarrow> bool" where
  "xp_validos d =
     (list_all (\<lambda>m. 0 < xp_m m) (misiones d) \<and> list_all (\<lambda>p. 0 \<le> xp p) (personajes d))"

text \<open>The sequence numbers of a character's pending rows, in the order of insertion.\<close>

definition ordenes_de :: "db \<Rightarrow> int \<Rightarrow> int list" where
  "ordenes_de d pid = map orden (filas_pendientes d pid)"

subsection \<open>A scenario\<close>

text \<open>One character and three missions, created through the endpoints on an empty
  database; the storage numbers them from 1.\<close>

definition preparar :: "op list" where
  "preparar =
     [Crear_personaje (Some ''Heroe''), Crear_mision ''Tutorial'' 10,
      Crear_mision ''Dragon'' 100, Crear_mision ''Cueva'' 30]"

definition db_inicial :: db where
  "db_inicial = ejecutar_todas preparar db_vacia"


subsection \<open>The database after a successful completion\<close>

text \<open>The updates that \<^verbatim>\<open>completar_mision\<close> commits when nothing fails, put together: the
  completed row is inserted, the character gets the experience \<open>g\<close> and the next active
  mission, and the promoted row leaves the pending table. Lemma \<open>completar_exito\<close> shows
  that this is what the handler returns.\<close>

definition tras_completar :: "int \<Rightarrow> int \<Rightarrow> int \<Rightarrow> pendiente option \<Rightarrow> db \<Rightarrow> db" where
  "tras_completar pid a g sig d =
     (actualizar_personaje pid
        (\<lambda>q. q\<lparr>xp := xp q + g, mision_activa_id := map_option mision_id sig\<rparr>)
        (d\<lparr>personaje_misiones_completadas :=
              personaje_misiones_completadas d @ [\<lparr>personaje_id_c = pid, mision_id_c = a\<rparr>]\<rparr>))
     \<lparr>personaje_misiones_pendientes :=
        (case sig of
           None \<Rightarrow> personaje_misiones_pendientes d
         | Some r \<Rightarrow>
             filter (\<lambda>x. \<not> (personaje_id x = pid \<and> mision_id x = mision_id r))
               (personaje_misiones_pendientes d))\<rparr>"


section \<open>Auxiliary facts\<close>

subsection \<open>The queue\<close>

lemma dequeue_vacia: "items c = [] \<Longrightarrow> dequeue c = (Inr None, c)"
  by (simp add: dequeue_def is_empty_def)

lemma dequeue_llena: "items c = x # rest \<Longrightarrow> dequeue c = (Inr (Some x), c\<lparr>items := rest\<rparr>)"
  by (simp add: dequeue_def is_empty_def popleft_def)

lemma cola_run_fifo:
  "\<exists>out c'. cola_run ops c = Inr (out, c') \<and> out @ items c' = items c @ enqueued ops"
proof (induction ops arbitrary: c)
  case Nil
  then show ?case by simp
next
  case (Cons a ops)
  show ?case
  proof (cases a)
    case (Enqueue x)
    from Cons.IH[of "enqueue x c"] Enqueue show ?thesis by (simp add: enqueue_def)
  next
    case Dequeue
    show ?thesis
    proof (cases "items c")
      case Nil
      from Cons.IH[of c] Dequeue Nil show ?thesis by (simp add: dequeue_vacia)
    next
      case (Cons x rest)
      from Cons.IH[of "c\<lparr>items := rest\<rparr>"]
      obtain o2 c2 where "cola_run ops (c\<lparr>items := rest\<rparr>) = Inr (o2, c2)"
        and "o2 @ items c2 = rest @ enqueued ops" by auto
      with Dequeue Cons show ?thesis by (simp add: dequeue_llena)
    qed
  qed
qed

subsection \<open>Queries and updates\<close>

lemma get_personaje_Inr:
  "get_personaje d pid = Inr r \<longleftrightarrow> int64 pid \<and> fila_personaje d pid = r"
  by (auto simp: get_personaje_def)

lemma get_mision_Inr:
  "get_mision d mid = Inr r \<longleftrightarrow> int64 mid \<and> fila_mision d mid = r"
  by (auto simp: get_mision_def)

lemma fila_personaje_id: "fila_personaje d pid = Some p \<Longrightarrow> id_p p = pid"
  by (auto simp: fila_personaje_def find_Some_iff)

lemma fila_mision_mem: "fila_mision d a = Some m \<Longrightarrow> m \<in> set (misiones d)"
  by (auto simp: fila_mision_def find_Some_iff)

lemma find_map_fila:
  assumes "\<And>q. id_p (f q) = id_p q"
  shows "find (\<lambda>p. id_p p = k) (map (\<lambda>p. if id_p p = pid then f p else p) ps) =
         map_option (\<lambda>p. if id_p p = pid then f p else p) (find (\<lambda>p. id_p p = k) ps)"
  by (induction ps) (auto simp: assms)

lemma fila_personaje_actualizar:
  assumes "\<And>q. id_p (f q) = id_p q"
  shows "fila_personaje (actualizar_personaje pid f d) k =
         map_option (\<lambda>p. if id_p p = pid then f p else p) (fila_personaje d k)"
  by (simp add: fila_personaje_def actualizar_personaje_def find_map_fila[OF assms])

lemma fila_personaje_actualizar_otro:
  assumes "k \<noteq> pid" and "\<And>q. id_p (f q) = id_p q"
  shows "fila_personaje (actualizar_personaje pid f d) k = fila_personaje d k"
proof (cases "fila_personaje d k")
  case None
  then show ?thesis by (simp add: fila_personaje_actualizar assms(2))
next
  case (Some q)
  with assms fila_personaje_id[OF Some] show ?thesis
    by (simp add: fila_personaje_actualizar)
qed

lemma find_snoc:
  "find P (xs @ [y]) = (case find P xs of Some x \<Rightarrow> Some x | None \<Rightarrow> if P y then Some y else None)"
  by (induction xs) auto

lemma fila_personaje_nuevo:
  "fila_personaje (d\<lparr>personajes := personajes d @ [q]\<rparr>) k =
     (case fila_personaje d k of
        Some p \<Rightarrow> Some p
      | None \<Rightarrow> if id_p q = k then Some q else None)"
  by (simp add: fila_personaje_def find_snoc)

lemma actualizar_tablas [simp]:
  "misiones (actualizar_personaje pid f d) = misiones d"
  "personaje_misiones_pendientes (actualizar_personaje pid f d) = personaje_misiones_pendientes d"
  "personaje_misiones_completadas (actualizar_personaje pid f d) = personaje_misiones_completadas d"
  by (simp_all add: actualizar_personaje_def)

lemma filas_actualizar [simp]:
  "filas_pendientes (actualizar_personaje pid f d) k = filas_pendientes d k"
  by (simp add: filas_pendientes_def)

lemma pendientes_de_simps [simp]:
  "pendientes_de (actualizar_personaje pid f d) k = pendientes_de d k"
  by (simp add: pendientes_de_def)

lemma completadas_actualizar [simp]:
  "completadas_de (actualizar_personaje pid f d) k = completadas_de d k"
  by (simp add: completadas_de_def)

lemma ordenes_actualizar [simp]:
  "ordenes_de (actualizar_personaje pid f d) k = ordenes_de d k"
  by (simp add: ordenes_de_def)

lemma completadas_insertar_pend [simp]:
  "completadas_de (d\<lparr>personaje_misiones_pendientes := x\<rparr>) k = completadas_de d k"
  by (simp add: completadas_de_def)

lemma fila_personaje_pend [simp]:
  "fila_personaje (d\<lparr>personaje_misiones_pendientes := x\<rparr>) k = fila_personaje d k"
  by (simp add: fila_personaje_def)

lemma proy_personajes [simp]:
  "pendientes_de (d\<lparr>personajes := x\<rparr>) k = pendientes_de d k"
  "completadas_de (d\<lparr>personajes := x\<rparr>) k = completadas_de d k"
  "filas_pendientes (d\<lparr>personajes := x\<rparr>) k = filas_pendientes d k"
  "ordenes_de (d\<lparr>personajes := x\<rparr>) k = ordenes_de d k"
  by (simp_all add: pendientes_de_def completadas_de_def filas_pendientes_def ordenes_de_def)

lemma proy_misiones [simp]:
  "pendientes_de (d\<lparr>misiones := x\<rparr>) k = pendientes_de d k"
  "completadas_de (d\<lparr>misiones := x\<rparr>) k = completadas_de d k"
  "filas_pendientes (d\<lparr>misiones := x\<rparr>) k = filas_pendientes d k"
  "ordenes_de (d\<lparr>misiones := x\<rparr>) k = ordenes_de d k"
  "fila_personaje (d\<lparr>misiones := x\<rparr>) k = fila_personaje d k"
  by (simp_all add: pendientes_de_def completadas_de_def filas_pendientes_def ordenes_de_def
      fila_personaje_def)

lemma filas_insertar:
  "filas_pendientes (d\<lparr>personaje_misiones_pendientes :=
       personaje_misiones_pendientes d @ [\<lparr>personaje_id = pid, mision_id = mid, orden = n\<rparr>]\<rparr>) k =
     (if k = pid then filas_pendientes d pid @ [\<lparr>personaje_id = pid, mision_id = mid, orden = n\<rparr>]
      else filas_pendientes d k)"
  by (simp add: filas_pendientes_def)

lemma pendientes_insertar:
  "pendientes_de (d\<lparr>personaje_misiones_pendientes :=
       personaje_misiones_pendientes d @ [\<lparr>personaje_id = pid, mision_id = mid, orden = n\<rparr>]\<rparr>) k =
     (if k = pid then pendientes_de d pid @ [mid] else pendientes_de d k)"
  by (simp add: pendientes_de_def filas_insertar)

lemma ordenes_insertar:
  "ordenes_de (d\<lparr>personaje_misiones_pendientes :=
       personaje_misiones_pendientes d @ [\<lparr>personaje_id = pid, mision_id = mid, orden = n\<rparr>]\<rparr>) k =
     (if k = pid then ordenes_de d pid @ [n] else ordenes_de d k)"
  by (simp add: ordenes_de_def filas_insertar)

subsection \<open>Sequence numbers\<close>

lemma fold_max_cota: "x \<le> fold max ys (x::int) \<and> (\<forall>y\<in>set ys. y \<le> fold max ys x)"
proof (induction ys arbitrary: x)
  case Nil
  then show ?case by simp
next
  case (Cons y ys)
  from Cons[of "max y x"] show ?case by auto
qed

lemma max_orden_cota: "n \<in> set ns \<Longrightarrow> n < or_0 (sql_max ns) + 1"
proof (cases ns)
  case Nil
  assume "n \<in> set ns" with Nil show ?thesis by simp
next
  case (Cons x ys)
  assume "n \<in> set ns"
  with Cons fold_max_cota[of x ys] have "n \<le> fold max ys x" by auto
  with Cons show ?thesis by (simp add: sql_max_def or_0_def)
qed

lemma max_orden_cota_le: "n \<in> set ns \<Longrightarrow> n \<le> or_0 (sql_max ns)"
  using max_orden_cota[of n ns] by simp

lemma or_0_sql_max: "or_0 (sql_max ns) + 1 = (if ns = [] then 1 else Max (set ns) + 1)"
proof (cases ns)
  case Nil
  then show ?thesis by (simp add: sql_max_def or_0_def)
next
  case (Cons x ys)
  have "fold max ys x = Max (set (x # ys))" by (simp only: Max.set_eq_fold)
  with Cons show ?thesis by (simp add: sql_max_def or_0_def)
qed

lemma primera_por_orden_None: "primera_por_orden rs = None \<longleftrightarrow> rs = []"
  by (induction rs) (auto split: option.splits)

lemma primera_por_orden_Some:
  "primera_por_orden rs = Some r \<Longrightarrow> r \<in> set rs \<and> (\<forall>r'\<in>set rs. orden r \<le> orden r')"
proof (induction rs arbitrary: r)
  case Nil
  then show ?case by simp
next
  case (Cons x xs)
  show ?case
  proof (cases "primera_por_orden xs")
    case None
    with Cons.prems primera_por_orden_None[of xs] show ?thesis by simp
  next
    case (Some r')
    from Cons.IH[OF Some] have r': "r' \<in> set xs" "\<forall>y\<in>set xs. orden r' \<le> orden y" by simp_all
    show ?thesis
    proof (cases "orden x \<le> orden r'")
      case True
      with Some Cons.prems have "r = x" by simp
      with True r' show ?thesis by auto
    next
      case False
      with Some Cons.prems have "r = r'" by simp
      with False r' show ?thesis by auto
    qed
  qed
qed

lemma primera_por_orden_creciente:
  assumes "sorted_wrt (<) (map orden (r # rs))"
  shows "primera_por_orden (r # rs) = Some r"
proof (cases "primera_por_orden rs")
  case None
  then show ?thesis by simp
next
  case (Some r')
  from primera_por_orden_Some[OF Some] have "r' \<in> set rs" by simp
  with assms have "orden r < orden r'" by auto
  with Some show ?thesis by simp
qed

subsection \<open>What each handler does to the database\<close>

lemma asignar_libre:
  assumes "get_personaje d pid = Inr (Some p)" "get_mision d mid = Inr (Some m)"
    "activa p = None"
  shows "asignar_mision pid mid d =
           (Inr \<lparr>mision_activa = True, en_cola = False\<rparr>,
            actualizar_personaje pid (\<lambda>q. q\<lparr>mision_activa_id := Some mid\<rparr>) d)"
  using assms by (simp add: asignar_mision_def)

lemma asignar_ocupado:
  assumes "get_personaje d pid = Inr (Some p)" "get_mision d mid = Inr (Some m)"
    "activa p = Some a"
    "mid \<notin> set (pendientes_de d pid)"
  shows "asignar_mision pid mid d =
           (Inr \<lparr>mision_activa = (mision_activa_id p = Some mid),
                 en_cola = (mision_activa_id p \<noteq> Some mid)\<rparr>,
            d\<lparr>personaje_misiones_pendientes :=
                 personaje_misiones_pendientes d @
                   [\<lparr>personaje_id = pid, mision_id = mid,
                     orden = or_0 (sql_max (ordenes_de d pid)) + 1\<rparr>]\<rparr>)"
  using assms by (simp add: asignar_mision_def ordenes_de_def)

lemma asignar_casos:
  "snd (asignar_mision pid mid d) = d
   \<or> (\<exists>p. fila_personaje d pid = Some p \<and> activa p = None \<and> fila_mision d mid \<noteq> None \<and>
         snd (asignar_mision pid mid d) =
           actualizar_personaje pid (\<lambda>q. q\<lparr>mision_activa_id := Some mid\<rparr>) d)
   \<or> (\<exists>p. fila_personaje d pid = Some p \<and> activa p \<noteq> None \<and> fila_mision d mid \<noteq> None \<and>
         mid \<notin> set (pendientes_de d pid) \<and>
         snd (asignar_mision pid mid d) =
           d\<lparr>personaje_misiones_pendientes :=
                 personaje_misiones_pendientes d @
                   [\<lparr>personaje_id = pid, mision_id = mid,
                     orden = or_0 (sql_max (ordenes_de d pid)) + 1\<rparr>]\<rparr>)"
  by (auto simp: asignar_mision_def ordenes_de_def Let_def get_personaje_def get_mision_def
      split: option.splits sum.splits if_splits)

lemma completar_exito:
  assumes "get_personaje d pid = Inr (Some p)" "activa p = Some a"
    "get_mision d a = Inr (Some m)" "a \<notin> set (completadas_de d pid)"
    "int64 (xp p + xp_m m)"
  shows "completar_mision pid d =
           (Inr \<lparr>xp_ganada = xp_m m, xp_total = xp p + xp_m m\<rparr>,
            tras_completar pid a (xp_m m) (primera_por_orden (filas_pendientes d pid)) d)"
  using assms
  by (cases "primera_por_orden (filas_pendientes d pid)")
     (simp_all add: completar_mision_def tras_completar_def Let_def actualizar_personaje_def)

lemma completar_casos:
  "snd (completar_mision pid d) = d
   \<or> (\<exists>p a m. fila_personaje d pid = Some p \<and> activa p = Some a \<and> fila_mision d a = Some m \<and>
         a \<notin> set (completadas_de d pid) \<and> int64 (xp p + xp_m m) \<and>
         snd (completar_mision pid d) =
           tras_completar pid a (xp_m m) (primera_por_orden (filas_pendientes d pid)) d)"
proof (cases "get_personaje d pid")
  case (Inl e)
  then show ?thesis by (simp add: completar_mision_def)
next
  case (Inr r)
  show ?thesis
  proof (cases r)
    case None
    with Inr show ?thesis by (simp add: completar_mision_def)
  next
    case (Some p)
    with Inr have gp: "get_personaje d pid = Inr (Some p)" by simp
    show ?thesis
    proof (cases "activa p")
      case None
      with gp show ?thesis by (simp add: completar_mision_def)
    next
      case a: (Some a)
      show ?thesis
      proof (cases "get_mision d a")
        case (Inl e)
        with gp a show ?thesis by (simp add: completar_mision_def)
      next
        case rm: (Inr rm)
        show ?thesis
        proof (cases rm)
          case None
          with gp a rm show ?thesis by (simp add: completar_mision_def)
        next
          case m: (Some m)
          with rm have gm: "get_mision d a = Inr (Some m)" by simp
          show ?thesis
          proof (cases "a \<in> set (completadas_de d pid) \<or> \<not> int64 (xp p + xp_m m)")
            case True
            with gp a gm show ?thesis by (auto simp: completar_mision_def Let_def)
          next
            case False
            then have nc: "a \<notin> set (completadas_de d pid)" and r: "int64 (xp p + xp_m m)"
              by simp_all
            from completar_exito[OF gp a gm nc r] gp gm nc r a show ?thesis
              by (simp add: get_personaje_Inr get_mision_Inr)
          qed
        qed
      qed
    qed
  qed
qed

lemma tras_completar_personaje:
  "fila_personaje (tras_completar pid a g sig d) k =
     map_option (\<lambda>q. if id_p q = pid
                      then q\<lparr>xp := xp q + g, mision_activa_id := map_option mision_id sig\<rparr>
                      else q) (fila_personaje d k)"
proof -
  have "fila_personaje (tras_completar pid a g sig d) k =
        fila_personaje (actualizar_personaje pid
          (\<lambda>q. q\<lparr>xp := xp q + g, mision_activa_id := map_option mision_id sig\<rparr>) d) k"
    by (simp add: tras_completar_def fila_personaje_def actualizar_personaje_def)
  then show ?thesis by (simp add: fila_personaje_actualizar)
qed

lemma tras_completar_filas:
  "filas_pendientes (tras_completar pid a g sig d) k =
     (if k = pid
      then (case sig of None \<Rightarrow> filas_pendientes d pid
            | Some r \<Rightarrow> filter (\<lambda>x. mision_id x \<noteq> mision_id r) (filas_pendientes d pid))
      else filas_pendientes d k)"
  by (cases sig) (auto simp: tras_completar_def filas_pendientes_def intro: filter_cong)

lemma tras_completar_pendientes:
  "pendientes_de (tras_completar pid a g sig d) k =
     (if k = pid
      then (case sig of None \<Rightarrow> pendientes_de d pid
            | Some r \<Rightarrow> filter (\<lambda>x. x \<noteq> mision_id r) (pendientes_de d pid))
      else pendientes_de d k)"
  by (cases sig) (simp_all add: pendientes_de_def tras_completar_filas filter_map comp_def)

lemma tras_completar_completadas:
  "completadas_de (tras_completar pid a g sig d) k =
     (if k = pid then completadas_de d pid @ [a] else completadas_de d k)"
  by (simp add: tras_completar_def completadas_de_def)

lemma tras_completar_misiones [simp]:
  "misiones (tras_completar pid a g sig d) = misiones d"
  by (simp add: tras_completar_def)

lemma tras_completar_personajes:
  "personajes (tras_completar pid a g sig d) =
     map (\<lambda>q. if id_p q = pid
               then q\<lparr>xp := xp q + g, mision_activa_id := map_option mision_id sig\<rparr>
               else q) (personajes d)"
  by (simp add: tras_completar_def actualizar_personaje_def)

lemma crear_personaje_casos:
  "crear_personaje n d = (Inl e, d') \<Longrightarrow> d' = d"
  "crear_personaje n d = (Inr r, d') \<Longrightarrow>
     pc_xp r = 0 \<and>
     d' = d\<lparr>personajes := personajes d @
            [\<lparr>id_p = pc_id r, nombre = pc_nombre r, xp = 0, mision_activa_id = None\<rparr>]\<rparr>"
  by (auto simp: crear_personaje_def Let_def split: option.splits if_splits)

lemma crear_personaje_snd:
  "snd (crear_personaje n d) = d \<or>
   (\<exists>i nm. snd (crear_personaje n d) =
      d\<lparr>personajes := personajes d @
            [\<lparr>id_p = i, nombre = nm, xp = 0, mision_activa_id = None\<rparr>]\<rparr>)"
  by (auto simp: crear_personaje_def Let_def split: option.splits if_splits)

lemma crear_mision_snd:
  "snd (crear_mision t x d) = d \<or>
   (\<exists>i. 0 < x \<and> int64 x \<and> snd (crear_mision t x d) =
      d\<lparr>misiones := misiones d @ [\<lparr>id_m = i, titulo = t, xp_m = x\<rparr>]\<rparr>)"
  by (auto simp: crear_mision_def Let_def split: if_splits)

lemma listar_snd [simp]:
  "snd (listar_misiones_disponibles pid d) = d"
  "snd (listar_misiones_personaje pid d) = d"
  by (auto simp: listar_misiones_disponibles_def listar_misiones_personaje_def
      split: option.splits sum.splits)

lemma misiones_crece: "\<exists>ms. misiones (ejecutar c d) = misiones d @ ms"
proof (cases c)
  case (Crear_personaje n)
  with crear_personaje_snd[of n d] show ?thesis by auto
next
  case (Crear_mision t x)
  with crear_mision_snd[of t x d] show ?thesis by auto
next
  case (Asignar pid mid)
  with asignar_casos[of pid mid d] show ?thesis by auto
next
  case (Completar pid)
  with completar_casos[of pid d] show ?thesis by auto
next
  case (Disponibles pid)
  then show ?thesis by simp
next
  case (Estado pid)
  then show ?thesis by simp
qed

subsection \<open>The record invariant, step by step\<close>

lemma invariante_iff:
  "invariante d k \<longleftrightarrow>
     distinct (pendientes_de d k) \<and>
     set (pendientes_de d k) \<inter> set (completadas_de d k) = {} \<and>
     (\<forall>p a. fila_personaje d k = Some p \<longrightarrow> activa p = Some a \<longrightarrow>
        a \<notin> set (pendientes_de d k) \<and> a \<notin> set (completadas_de d k))"
  by (auto simp: invariante_def list_all_iff split: option.splits)

lemma retenida_iff:
  "retenida d pid mid \<longleftrightarrow>
     mid \<in> set (pendientes_de d pid) \<or> mid \<in> set (completadas_de d pid) \<or>
     (\<exists>p. fila_personaje d pid = Some p \<and> activa p = Some mid)"
  by (auto simp: retenida_def split: option.splits)

lemma invariante_asignar:
  assumes "invariante d k" and "\<not> retenida d pid mid"
  shows "invariante (snd (asignar_mision pid mid d)) k"
proof -
  from asignar_casos[of pid mid d]
  consider (igual) "snd (asignar_mision pid mid d) = d"
    | (libre) p where "fila_personaje d pid = Some p" "activa p = None"
        "snd (asignar_mision pid mid d) =
           actualizar_personaje pid (\<lambda>q. q\<lparr>mision_activa_id := Some mid\<rparr>) d"
    | (cola) p where "fila_personaje d pid = Some p" "activa p \<noteq> None"
        "mid \<notin> set (pendientes_de d pid)"
        "snd (asignar_mision pid mid d) =
           d\<lparr>personaje_misiones_pendientes :=
                 personaje_misiones_pendientes d @
                   [\<lparr>personaje_id = pid, mision_id = mid,
                     orden = or_0 (sql_max (ordenes_de d pid)) + 1\<rparr>]\<rparr>"
    by blast
  then show ?thesis
  proof cases
    case igual
    with assms(1) show ?thesis by simp
  next
    case libre
    have idp: "id_p p = pid" by (rule fila_personaje_id[OF libre(1)])
    show ?thesis
    proof (cases "k = pid")
      case True
      with assms libre idp show ?thesis
        by (auto simp: invariante_iff retenida_iff fila_personaje_actualizar activa_def
            split: option.splits if_splits)
    next
      case False
      with assms(1) libre(3) show ?thesis
        by (simp add: invariante_iff fila_personaje_actualizar_otro)
    qed
  next
    case cola
    show ?thesis
    proof (cases "k = pid")
      case True
      with assms cola show ?thesis
        by (auto simp: invariante_iff retenida_iff pendientes_insertar)
    next
      case False
      with assms(1) cola(4) show ?thesis
        by (simp add: invariante_iff pendientes_insertar)
    qed
  qed
qed

lemma invariante_completar:
  assumes "invariante d k"
  shows "invariante (snd (completar_mision pid d)) k"
proof -
  from completar_casos[of pid d]
  consider (igual) "snd (completar_mision pid d) = d"
    | (exito) p a g where "fila_personaje d pid = Some p" "activa p = Some a"
        "snd (completar_mision pid d) =
           tras_completar pid a g (primera_por_orden (filas_pendientes d pid)) d"
    by blast
  then show ?thesis
  proof cases
    case igual
    with assms show ?thesis by simp
  next
    case exito
    let ?sig = "primera_por_orden (filas_pendientes d pid)"
    have idp: "id_p p = pid" by (rule fila_personaje_id[OF exito(1)])
    show ?thesis
    proof (cases "k = pid")
      case False
      have "fila_personaje (tras_completar pid a g ?sig d) k = fila_personaje d k"
      proof (cases "fila_personaje d k")
        case None
        then show ?thesis by (simp add: tras_completar_personaje)
      next
        case (Some q)
        with False fila_personaje_id[OF Some] show ?thesis
          by (simp add: tras_completar_personaje)
      qed
      with assms False exito(3) show ?thesis
        by (simp add: invariante_iff tras_completar_pendientes tras_completar_completadas)
    next
      case True
      from assms True exito(1,2) have a: "a \<notin> set (pendientes_de d pid)"
        and dis: "distinct (pendientes_de d pid)"
        and pc: "set (pendientes_de d pid) \<inter> set (completadas_de d pid) = {}"
        by (auto simp: invariante_iff)
      have gp: "fila_personaje (tras_completar pid a g ?sig d) pid =
          Some (p\<lparr>xp := xp p + g, mision_activa_id := map_option mision_id ?sig\<rparr>)"
        by (simp add: tras_completar_personaje exito(1) idp)
      show ?thesis
      proof (cases ?sig)
        case None
        with True exito(3) gp a dis pc show ?thesis
          by (auto simp: invariante_iff tras_completar_pendientes tras_completar_completadas
              activa_def)
      next
        case (Some r)
        from primera_por_orden_Some[OF Some] have "mision_id r \<in> set (pendientes_de d pid)"
          by (auto simp: pendientes_de_def)
        with Some True exito(3) gp a dis pc show ?thesis
          by (auto simp: invariante_iff tras_completar_pendientes tras_completar_completadas
              activa_def split: if_splits)
      qed
    qed
  qed
qed

lemma invariante_crear_personaje:
  assumes "invariante d k"
  shows "invariante (snd (crear_personaje n d)) k"
  using crear_personaje_snd[of n d] assms
  by (auto simp: invariante_iff fila_personaje_nuevo activa_def split: option.splits if_splits)

lemma invariante_crear_mision:
  assumes "invariante d k"
  shows "invariante (snd (crear_mision t x d)) k"
  using crear_mision_snd[of t x d] assms
  by (auto simp: invariante_iff)

lemma invariante_paso:
  "invariante d k \<Longrightarrow> sin_reasignar d (c # ops) \<Longrightarrow>
   invariante (ejecutar c d) k \<and> sin_reasignar (ejecutar c d) ops"
  by (cases c)
     (simp_all add: invariante_asignar invariante_completar invariante_crear_personaje
        invariante_crear_mision)

lemma invariante_ejecutar_todas:
  "invariante d k \<Longrightarrow> sin_reasignar d ops \<Longrightarrow> invariante (ejecutar_todas ops d) k"
  unfolding ejecutar_todas_def
proof (induction ops arbitrary: d)
  case Nil
  then show ?case by simp
next
  case (Cons c ops)
  from invariante_paso[OF Cons.prems]
  have "invariante (ejecutar c d) k" and "sin_reasignar (ejecutar c d) ops" by simp_all
  from Cons.IH[OF this] show ?case by simp
qed

lemma distinct_asignar:
  assumes "distinct (pendientes_de d k)"
  shows "distinct (pendientes_de (snd (asignar_mision pid mid d)) k)"
  using asignar_casos[of pid mid d] assms
  by (auto simp: pendientes_insertar)

lemma distinct_completar:
  assumes "distinct (pendientes_de d k)"
  shows "distinct (pendientes_de (snd (completar_mision pid d)) k)"
  using completar_casos[of pid d] assms
  by (auto simp: tras_completar_pendientes split: option.splits)

lemma distinct_ejecutar:
  "distinct (pendientes_de d k) \<Longrightarrow> distinct (pendientes_de (ejecutar c d) k)"
proof (cases c)
  case (Crear_personaje n)
  assume "distinct (pendientes_de d k)"
  with Crear_personaje crear_personaje_snd[of n d] show ?thesis by auto
next
  case (Crear_mision t x)
  assume "distinct (pendientes_de d k)"
  with Crear_mision crear_mision_snd[of t x d] show ?thesis by auto
next
  case (Asignar pid mid)
  assume "distinct (pendientes_de d k)"
  with Asignar show ?thesis by (simp add: distinct_asignar)
next
  case (Completar pid)
  assume "distinct (pendientes_de d k)"
  with Completar show ?thesis by (simp add: distinct_completar)
next
  case (Disponibles pid)
  assume "distinct (pendientes_de d k)"
  with Disponibles show ?thesis by simp
next
  case (Estado pid)
  assume "distinct (pendientes_de d k)"
  with Estado show ?thesis by simp
qed

lemma distinct_ejecutar_todas:
  "distinct (pendientes_de d k) \<Longrightarrow> distinct (pendientes_de (ejecutar_todas ops d) k)"
  unfolding ejecutar_todas_def
  by (induction ops arbitrary: d) (simp_all add: distinct_ejecutar)

subsection \<open>Sequence numbers grow along the queue\<close>

lemma creciente_asignar:
  assumes "sorted_wrt (<) (ordenes_de d k)"
  shows "sorted_wrt (<) (ordenes_de (snd (asignar_mision pid mid d)) k)"
  using asignar_casos[of pid mid d] assms
  by (auto simp: ordenes_insertar sorted_wrt_append max_orden_cota_le)

lemma creciente_filter:
  "sorted_wrt (<) (map orden rs) \<Longrightarrow> sorted_wrt (<) (map orden (filter P rs))"
  by (simp add: sorted_wrt_map sorted_wrt_filter)

lemma creciente_completar:
  assumes "sorted_wrt (<) (ordenes_de d k)"
  shows "sorted_wrt (<) (ordenes_de (snd (completar_mision pid d)) k)"
  using completar_casos[of pid d] assms
  by (auto simp: ordenes_de_def tras_completar_filas creciente_filter split: option.splits)

lemma creciente_ejecutar:
  assumes "sorted_wrt (<) (ordenes_de d k)"
  shows "sorted_wrt (<) (ordenes_de (ejecutar c d) k)"
proof (cases c)
  case (Crear_personaje n)
  with assms crear_personaje_snd[of n d] show ?thesis by auto
next
  case (Crear_mision t x)
  with assms crear_mision_snd[of t x d] show ?thesis by auto
next
  case (Asignar pid mid)
  with assms show ?thesis by (simp add: creciente_asignar)
next
  case (Completar pid)
  with assms show ?thesis by (simp add: creciente_completar)
next
  case (Disponibles pid)
  with assms show ?thesis by simp
next
  case (Estado pid)
  with assms show ?thesis by simp
qed

lemma creciente_ejecutar_todas:
  "sorted_wrt (<) (ordenes_de d k) \<Longrightarrow> sorted_wrt (<) (ordenes_de (ejecutar_todas ops d) k)"
  unfolding ejecutar_todas_def
  by (induction ops arbitrary: d) (simp_all add: creciente_ejecutar)

subsection \<open>Experience\<close>

lemma xp_validos_asignar: "xp_validos d \<Longrightarrow> xp_validos (snd (asignar_mision pid mid d))"
  using asignar_casos[of pid mid d]
  by (auto simp: xp_validos_def list_all_iff actualizar_personaje_def)

lemma xp_validos_completar:
  assumes "xp_validos d"
  shows "xp_validos (snd (completar_mision pid d))"
proof -
  from completar_casos[of pid d]
  consider (igual) "snd (completar_mision pid d) = d"
    | (exito) a m where "fila_mision d a = Some m"
        "snd (completar_mision pid d) =
           tras_completar pid a (xp_m m) (primera_por_orden (filas_pendientes d pid)) d"
    by blast
  then show ?thesis
  proof cases
    case igual
    with assms show ?thesis by simp
  next
    case exito
    from fila_mision_mem[OF exito(1)] assms have "0 < xp_m m"
      by (auto simp: xp_validos_def list_all_iff)
    with assms exito(2) show ?thesis
      by (auto simp: xp_validos_def list_all_iff tras_completar_personajes)
  qed
qed

lemma xp_validos_ejecutar: "xp_validos d \<Longrightarrow> xp_validos (ejecutar c d)"
proof (cases c)
  case (Crear_personaje n)
  assume "xp_validos d"
  with Crear_personaje crear_personaje_snd[of n d] show ?thesis
    by (auto simp: xp_validos_def)
next
  case (Crear_mision t x)
  assume "xp_validos d"
  with Crear_mision crear_mision_snd[of t x d] show ?thesis
    by (auto simp: xp_validos_def)
next
  case (Asignar pid mid)
  assume "xp_validos d"
  with Asignar show ?thesis by (simp add: xp_validos_asignar)
next
  case (Completar pid)
  assume "xp_validos d"
  with Completar show ?thesis by (simp add: xp_validos_completar)
next
  case (Disponibles pid)
  assume "xp_validos d"
  with Disponibles show ?thesis by simp
next
  case (Estado pid)
  assume "xp_validos d"
  with Estado show ?thesis by simp
qed

lemma xp_validos_ejecutar_todas: "xp_validos d \<Longrightarrow> xp_validos (ejecutar_todas ops d)"
  unfolding ejecutar_todas_def
  by (induction ops arbitrary: d) (simp_all add: xp_validos_ejecutar)

lemma xp_validos_vacia: "xp_validos db_vacia"
  by (simp add: xp_validos_def db_vacia_def)

lemma xp_monotona:
  assumes "xp_validos d" and "fila_personaje d k = Some p"
  shows "\<exists>p'. fila_personaje (ejecutar c d) k = Some p' \<and> xp p \<le> xp p'"
proof (cases c)
  case (Crear_personaje n)
  with assms(2) crear_personaje_snd[of n d] show ?thesis
    by (auto simp: fila_personaje_nuevo)
next
  case (Crear_mision t x)
  with assms(2) crear_mision_snd[of t x d] show ?thesis by auto
next
  case (Asignar pid mid)
  with assms(2) asignar_casos[of pid mid d] show ?thesis
    by (auto simp: fila_personaje_actualizar)
next
  case (Completar pid)
  from completar_casos[of pid d]
  consider (igual) "snd (completar_mision pid d) = d"
    | (exito) a m where "fila_mision d a = Some m"
        "snd (completar_mision pid d) =
           tras_completar pid a (xp_m m) (primera_por_orden (filas_pendientes d pid)) d"
    by blast
  then show ?thesis
  proof cases
    case igual
    with Completar assms(2) show ?thesis by simp
  next
    case exito
    from fila_mision_mem[OF exito(1)] assms(1) have "0 < xp_m m"
      by (auto simp: xp_validos_def list_all_iff)
    with Completar assms(2) exito(2) show ?thesis
      by (auto simp: tras_completar_personaje)
  qed
next
  case (Disponibles pid)
  with assms(2) show ?thesis by simp
next
  case (Estado pid)
  with assms(2) show ?thesis by simp
qed


section \<open>Assignment\<close>

text \<open>
  C5 (amended). For an existing character and a mission of the catalog,
  \<^verbatim>\<open>asignar_mision\<close> makes the mission the active one when the character has none, and
  reports \<^verbatim>\<open>mision_activa = True\<close>. When the character has an active mission and the
  given mission is not yet in its pending queue, the mission is appended to the queue with
  a sequence number above all those in the queue, and the character's row is left as it
  was; the response reports \<^verbatim>\<open>en_cola = True\<close> when the mission is not the active one.
\<close>

theorem asignar_mision_ok:
  assumes "get_personaje d pid = Inr (Some p)" and "get_mision d mid = Inr (Some m)"
  shows "(activa p = None \<longrightarrow>
            fst (asignar_mision pid mid d) = Inr \<lparr>mision_activa = True, en_cola = False\<rparr> \<and>
            get_personaje (snd (asignar_mision pid mid d)) pid
              = Inr (Some (p\<lparr>mision_activa_id := Some mid\<rparr>)) \<and>
            filas_pendientes (snd (asignar_mision pid mid d)) pid = filas_pendientes d pid)
       \<and> (activa p \<noteq> None \<and> mid \<notin> set (pendientes_de d pid) \<longrightarrow>
            get_personaje (snd (asignar_mision pid mid d)) pid = Inr (Some p) \<and>
            filas_pendientes (snd (asignar_mision pid mid d)) pid =
              filas_pendientes d pid @
                [\<lparr>personaje_id = pid, mision_id = mid,
                  orden = or_0 (sql_max (ordenes_de d pid)) + 1\<rparr>] \<and>
            (\<forall>r\<in>set (filas_pendientes d pid). orden r < or_0 (sql_max (ordenes_de d pid)) + 1) \<and>
            (activa p \<noteq> Some mid \<longrightarrow>
               fst (asignar_mision pid mid d) = Inr \<lparr>mision_activa = False, en_cola = True\<rparr>))"
proof -
  from assms(1) have fp: "fila_personaje d pid = Some p" and rg: "int64 pid"
    by (simp_all add: get_personaje_Inr)
  have idp: "id_p p = pid" by (rule fila_personaje_id[OF fp])
  have libre: "activa p = None \<longrightarrow>
            fst (asignar_mision pid mid d) = Inr \<lparr>mision_activa = True, en_cola = False\<rparr> \<and>
            get_personaje (snd (asignar_mision pid mid d)) pid
              = Inr (Some (p\<lparr>mision_activa_id := Some mid\<rparr>)) \<and>
            filas_pendientes (snd (asignar_mision pid mid d)) pid = filas_pendientes d pid"
  proof
    assume n: "activa p = None"
    show "fst (asignar_mision pid mid d) = Inr \<lparr>mision_activa = True, en_cola = False\<rparr> \<and>
            get_personaje (snd (asignar_mision pid mid d)) pid
              = Inr (Some (p\<lparr>mision_activa_id := Some mid\<rparr>)) \<and>
            filas_pendientes (snd (asignar_mision pid mid d)) pid = filas_pendientes d pid"
      unfolding asignar_libre[OF assms n] fst_conv snd_conv
      by (simp add: get_personaje_def rg fila_personaje_actualizar fp idp)
  qed
  have ocupado: "activa p \<noteq> None \<and> mid \<notin> set (pendientes_de d pid) \<longrightarrow>
            get_personaje (snd (asignar_mision pid mid d)) pid = Inr (Some p) \<and>
            filas_pendientes (snd (asignar_mision pid mid d)) pid =
              filas_pendientes d pid @
                [\<lparr>personaje_id = pid, mision_id = mid,
                  orden = or_0 (sql_max (ordenes_de d pid)) + 1\<rparr>] \<and>
            (\<forall>r\<in>set (filas_pendientes d pid). orden r < or_0 (sql_max (ordenes_de d pid)) + 1) \<and>
            (activa p \<noteq> Some mid \<longrightarrow>
               fst (asignar_mision pid mid d) = Inr \<lparr>mision_activa = False, en_cola = True\<rparr>)"
  proof
    assume h: "activa p \<noteq> None \<and> mid \<notin> set (pendientes_de d pid)"
    then obtain a where a: "activa p = Some a" and np: "mid \<notin> set (pendientes_de d pid)" by auto
    have cota: "\<forall>r\<in>set (filas_pendientes d pid). orden r < or_0 (sql_max (ordenes_de d pid)) + 1"
    proof
      fix r assume "r \<in> set (filas_pendientes d pid)"
      then have "orden r \<in> set (ordenes_de d pid)" by (simp add: ordenes_de_def)
      from max_orden_cota[OF this] show "orden r < or_0 (sql_max (ordenes_de d pid)) + 1" .
    qed
    have rep: "activa p \<noteq> Some mid \<longrightarrow> mision_activa_id p \<noteq> Some mid"
      using a by (auto simp: activa_def split: option.splits if_splits)
    show "get_personaje (snd (asignar_mision pid mid d)) pid = Inr (Some p) \<and>
            filas_pendientes (snd (asignar_mision pid mid d)) pid =
              filas_pendientes d pid @
                [\<lparr>personaje_id = pid, mision_id = mid,
                  orden = or_0 (sql_max (ordenes_de d pid)) + 1\<rparr>] \<and>
            (\<forall>r\<in>set (filas_pendientes d pid). orden r < or_0 (sql_max (ordenes_de d pid)) + 1) \<and>
            (activa p \<noteq> Some mid \<longrightarrow>
               fst (asignar_mision pid mid d) = Inr \<lparr>mision_activa = False, en_cola = True\<rparr>)"
      unfolding asignar_ocupado[OF assms a np] fst_conv snd_conv
      using cota rep by (simp add: filas_insertar get_personaje_def rg fp)
  qed
  from libre ocupado show ?thesis by blast
qed

theorem asignar_mision_ok_witness:
  "get_personaje db_inicial 1 =
      Inr (Some \<lparr>id_p = 1, nombre = ''Heroe'', xp = 0, mision_activa_id = None\<rparr>)
   \<and> get_mision db_inicial 1 = Inr (Some \<lparr>id_m = 1, titulo = ''Tutorial'', xp_m = 10\<rparr>)
   \<and> activa \<lparr>id_p = 1, nombre = ''Heroe'', xp = 0, mision_activa_id = None\<rparr> = None
   \<and> fst (asignar_mision 1 1 db_inicial) = Inr \<lparr>mision_activa = True, en_cola = False\<rparr>
   \<and> get_personaje (snd (asignar_mision 1 1 db_inicial)) 1 =
       Inr (Some \<lparr>id_p = 1, nombre = ''Heroe'', xp = 0, mision_activa_id = Some 1\<rparr>)
   \<and> get_personaje (ejecutar_todas [Asignar 1 1, Asignar 1 2] db_inicial) 1 =
      Inr (Some \<lparr>id_p = 1, nombre = ''Heroe'', xp = 0, mision_activa_id = Some 1\<rparr>)
   \<and> get_mision (ejecutar_todas [Asignar 1 1, Asignar 1 2] db_inicial) 3 =
      Inr (Some \<lparr>id_m = 3, titulo = ''Cueva'', xp_m = 30\<rparr>)
   \<and> activa \<lparr>id_p = 1, nombre = ''Heroe'', xp = 0, mision_activa_id = Some 1\<rparr> \<noteq> None
   \<and> activa \<lparr>id_p = 1, nombre = ''Heroe'', xp = 0, mision_activa_id = Some 1\<rparr> \<noteq> Some 3
   \<and> 3 \<notin> set (pendientes_de (ejecutar_todas [Asignar 1 1, Asignar 1 2] db_inicial) 1)
   \<and> fst (asignar_mision 1 3 (ejecutar_todas [Asignar 1 1, Asignar 1 2] db_inicial)) =
       Inr \<lparr>mision_activa = False, en_cola = True\<rparr>
   \<and> filas_pendientes
        (snd (asignar_mision 1 3 (ejecutar_todas [Asignar 1 1, Asignar 1 2] db_inicial))) 1 =
       [\<lparr>personaje_id = 1, mision_id = 2, orden = 1\<rparr>,
        \<lparr>personaje_id = 1, mision_id = 3, orden = 2\<rparr>]"
proof -
  let ?d = "ejecutar_todas [Asignar 1 1, Asignar 1 2] db_inicial"
  let ?q = "\<lparr>id_p = 1, nombre = ''Heroe'', xp = 0, mision_activa_id = None\<rparr>"
  let ?p = "\<lparr>id_p = 1, nombre = ''Heroe'', xp = 0, mision_activa_id = Some 1\<rparr>"
  have a1: "get_personaje db_inicial 1 = Inr (Some ?q)" by code_simp
  have a2: "get_mision db_inicial 1 = Inr (Some \<lparr>id_m = 1, titulo = ''Tutorial'', xp_m = 10\<rparr>)"
    by code_simp
  have a3: "activa ?q = None" by code_simp
  have h1: "get_personaje ?d 1 = Inr (Some ?p)" by code_simp
  have h2: "get_mision ?d 3 = Inr (Some \<lparr>id_m = 3, titulo = ''Cueva'', xp_m = 30\<rparr>)" by code_simp
  have h3: "activa ?p \<noteq> None" by code_simp
  have h4: "activa ?p \<noteq> Some 3" by code_simp
  have h5: "3 \<notin> set (pendientes_de ?d 1)" by code_simp
  have h6: "filas_pendientes ?d 1 = [\<lparr>personaje_id = 1, mision_id = 2, orden = 1\<rparr>]"
    by code_simp
  have h7: "or_0 (sql_max (ordenes_de ?d 1)) + 1 = 2" by code_simp
  from asignar_mision_ok[OF a1 a2] a3
  have c1: "fst (asignar_mision 1 1 db_inicial) = Inr \<lparr>mision_activa = True, en_cola = False\<rparr>"
    and "get_personaje (snd (asignar_mision 1 1 db_inicial)) 1
           = Inr (Some (?q\<lparr>mision_activa_id := Some 1\<rparr>))"
    by blast+
  then have c2: "get_personaje (snd (asignar_mision 1 1 db_inicial)) 1 = Inr (Some ?p)" by simp
  note t = asignar_mision_ok[OF h1 h2]
  from t h3 h4 h5
  have c3: "fst (asignar_mision 1 3 ?d) = Inr \<lparr>mision_activa = False, en_cola = True\<rparr>"
    by blast
  from t h3 h5
  have "filas_pendientes (snd (asignar_mision 1 3 ?d)) 1 =
          filas_pendientes ?d 1 @
            [\<lparr>personaje_id = 1, mision_id = 3, orden = or_0 (sql_max (ordenes_de ?d 1)) + 1\<rparr>]"
    by blast
  then have c4: "filas_pendientes (snd (asignar_mision 1 3 ?d)) 1 =
       [\<lparr>personaje_id = 1, mision_id = 2, orden = 1\<rparr>,
        \<lparr>personaje_id = 1, mision_id = 3, orden = 2\<rparr>]"
    unfolding h6 h7 by simp
  from a1 a2 a3 c1 c2 h1 h2 h3 h4 h5 c3 c4 show ?thesis by blast
qed

text \<open>
  As first stated the claim covered every mission of the catalog. A mission that is
  already pending is refused by the primary key of the pending table, and the active
  mission assigned again is queued while the response still says
  \<^verbatim>\<open>mision_activa = True, en_cola = False\<close>.
\<close>

theorem asignar_pendiente_falla:
  "get_personaje (ejecutar_todas [Asignar 1 1, Asignar 1 2] db_inicial) 1 =
      Inr (Some \<lparr>id_p = 1, nombre = ''Heroe'', xp = 0, mision_activa_id = Some 1\<rparr>)
   \<and> get_mision (ejecutar_todas [Asignar 1 1, Asignar 1 2] db_inicial) 2 =
      Inr (Some \<lparr>id_m = 2, titulo = ''Dragon'', xp_m = 100\<rparr>)
   \<and> asignar_mision 1 2 (ejecutar_todas [Asignar 1 1, Asignar 1 2] db_inicial) =
       (Inl (HTTPException 400 (Error_asignando_mision IntegrityError)),
        ejecutar_todas [Asignar 1 1, Asignar 1 2] db_inicial)
   \<and> get_mision (ejecutar_todas [Asignar 1 1, Asignar 1 2] db_inicial) 1 =
      Inr (Some \<lparr>id_m = 1, titulo = ''Tutorial'', xp_m = 10\<rparr>)
   \<and> fst (asignar_mision 1 1 (ejecutar_todas [Asignar 1 1, Asignar 1 2] db_inicial)) =
       Inr \<lparr>mision_activa = True, en_cola = False\<rparr>
   \<and> filas_pendientes
        (snd (asignar_mision 1 1 (ejecutar_todas [Asignar 1 1, Asignar 1 2] db_inicial))) 1 =
       [\<lparr>personaje_id = 1, mision_id = 2, orden = 1\<rparr>,
        \<lparr>personaje_id = 1, mision_id = 1, orden = 2\<rparr>]"
  by code_simp


text \<open>
  C1 (amended). The handler has no check of its own for a mission the character already
  holds. An assignment fails, with the storage's integrity error wrapped in a 400
  response, and leaves the database as it was exactly when the character has an active
  mission and the given mission is already in its pending queue; a mission that is not in
  the pending queue is accepted, also when it is the active mission or a completed one.
\<close>

theorem asignar_mision_retenida:
  assumes "get_personaje d pid = Inr (Some p)" and "get_mision d mid = Inr (Some m)"
  shows "(activa p \<noteq> None \<and> mid \<in> set (pendientes_de d pid) \<longrightarrow>
            asignar_mision pid mid d =
              (Inl (HTTPException 400 (Error_asignando_mision IntegrityError)), d))
       \<and> (\<not> (activa p \<noteq> None \<and> mid \<in> set (pendientes_de d pid)) \<longrightarrow>
            (\<exists>r. fst (asignar_mision pid mid d) = Inr r))"
  using assms by (auto simp: asignar_mision_def Let_def split: option.splits)

theorem asignar_mision_retenida_witness:
  "get_personaje (ejecutar_todas [Asignar 1 1, Asignar 1 2] db_inicial) 1 =
      Inr (Some \<lparr>id_p = 1, nombre = ''Heroe'', xp = 0, mision_activa_id = Some 1\<rparr>)
   \<and> get_mision (ejecutar_todas [Asignar 1 1, Asignar 1 2] db_inicial) 2 =
      Inr (Some \<lparr>id_m = 2, titulo = ''Dragon'', xp_m = 100\<rparr>)
   \<and> activa \<lparr>id_p = 1, nombre = ''Heroe'', xp = 0, mision_activa_id = Some 1\<rparr> \<noteq> None
   \<and> 2 \<in> set (pendientes_de (ejecutar_todas [Asignar 1 1, Asignar 1 2] db_inicial) 1)
   \<and> asignar_mision 1 2 (ejecutar_todas [Asignar 1 1, Asignar 1 2] db_inicial) =
       (Inl (HTTPException 400 (Error_asignando_mision IntegrityError)),
        ejecutar_todas [Asignar 1 1, Asignar 1 2] db_inicial)
   \<and> get_mision (ejecutar_todas [Asignar 1 1, Asignar 1 2] db_inicial) 1 =
      Inr (Some \<lparr>id_m = 1, titulo = ''Tutorial'', xp_m = 10\<rparr>)
   \<and> 1 \<notin> set (pendientes_de (ejecutar_todas [Asignar 1 1, Asignar 1 2] db_inicial) 1)
   \<and> (\<exists>r. fst (asignar_mision 1 1 (ejecutar_todas [Asignar 1 1, Asignar 1 2] db_inicial)) = Inr r)"
proof -
  let ?d = "ejecutar_todas [Asignar 1 1, Asignar 1 2] db_inicial"
  let ?p = "\<lparr>id_p = 1, nombre = ''Heroe'', xp = 0, mision_activa_id = Some 1\<rparr>"
  have h1: "get_personaje ?d 1 = Inr (Some ?p)" by code_simp
  have h2: "get_mision ?d 2 = Inr (Some \<lparr>id_m = 2, titulo = ''Dragon'', xp_m = 100\<rparr>)" by code_simp
  have h3: "activa ?p \<noteq> None" by code_simp
  have h4: "2 \<in> set (pendientes_de ?d 1)" by code_simp
  have h5: "get_mision ?d 1 = Inr (Some \<lparr>id_m = 1, titulo = ''Tutorial'', xp_m = 10\<rparr>)" by code_simp
  have h6: "1 \<notin> set (pendientes_de ?d 1)" by code_simp
  from asignar_mision_retenida[OF h1 h2] h3 h4
  have c1: "asignar_mision 1 2 ?d =
      (Inl (HTTPException 400 (Error_asignando_mision IntegrityError)), ?d)" by blast
  from asignar_mision_retenida[OF h1 h5] h6
  have c2: "\<exists>r. fst (asignar_mision 1 1 ?d) = Inr r" by blast
  from h1 h2 h3 h4 h5 h6 c1 c2 show ?thesis by blast
qed

text \<open>
  Assigning the active mission again succeeds and puts it in the pending queue; assigning
  a completed mission to an idle character succeeds and makes it active again.
\<close>

theorem reasignacion_aceptada:
  "map_option activa (fila_personaje (ejecutar_todas [Asignar 1 1] db_inicial) 1) = Some (Some 1)
   \<and> fst (asignar_mision 1 1 (ejecutar_todas [Asignar 1 1] db_inicial)) =
       Inr \<lparr>mision_activa = True, en_cola = False\<rparr>
   \<and> pendientes_de (ejecutar_todas [Asignar 1 1] db_inicial) 1 = []
   \<and> pendientes_de (snd (asignar_mision 1 1 (ejecutar_todas [Asignar 1 1] db_inicial))) 1 = [1]
   \<and> completadas_de (ejecutar_todas [Asignar 1 1, Completar 1] db_inicial) 1 = [1]
   \<and> fst (asignar_mision 1 1 (ejecutar_todas [Asignar 1 1, Completar 1] db_inicial)) =
       Inr \<lparr>mision_activa = True, en_cola = False\<rparr>
   \<and> map_option activa
        (fila_personaje
           (snd (asignar_mision 1 1 (ejecutar_todas [Asignar 1 1, Completar 1] db_inicial))) 1)
       = Some (Some 1)"
  by code_simp


text \<open>
  C4 (amended). A mission that is queued gets the sequence number one above the largest
  one now in the character's pending queue (1 when the queue is empty), hence a number
  above every number in the queue. So the numbers of a queue increase strictly in the
  order of insertion, after every sequence of calls, the row of least number is the oldest
  one, and a successful \<^verbatim>\<open>completar_mision\<close> promotes the mission of the oldest row and
  leaves the rest of the queue in its order. The numbers are computed from the rows
  present: a number whose row has left the queue can be given out again.
\<close>

theorem orden_creciente:
  "(get_personaje d pid = Inr (Some p) \<and> get_mision d mid = Inr (Some m) \<and> activa p \<noteq> None \<and>
    mid \<notin> set (pendientes_de d pid) \<longrightarrow>
      ordenes_de (snd (asignar_mision pid mid d)) pid =
        ordenes_de d pid @
          [if ordenes_de d pid = [] then 1 else Max (set (ordenes_de d pid)) + 1] \<and>
      (\<forall>n\<in>set (ordenes_de d pid).
         n < (if ordenes_de d pid = [] then 1 else Max (set (ordenes_de d pid)) + 1)))
   \<and> (sorted_wrt (<) (ordenes_de d pid) \<longrightarrow>
        sorted_wrt (<) (ordenes_de (ejecutar_todas ops d) pid))
   \<and> (sorted_wrt (<) (ordenes_de d pid) \<longrightarrow>
        primera_por_orden (filas_pendientes d pid) =
          (case filas_pendientes d pid of [] \<Rightarrow> None | r # rs \<Rightarrow> Some r))
   \<and> (get_personaje d pid = Inr (Some pc) \<and> activa pc = Some a \<and>
       get_mision d a = Inr (Some ma) \<and> a \<notin> set (completadas_de d pid) \<and>
       int64 (xp pc + xp_m ma) \<and> sorted_wrt (<) (ordenes_de d pid) \<and>
       filas_pendientes d pid = r # rs \<longrightarrow>
         get_personaje (snd (completar_mision pid d)) pid =
           Inr (Some (pc\<lparr>xp := xp pc + xp_m ma, mision_activa_id := Some (mision_id r)\<rparr>)) \<and>
         filas_pendientes (snd (completar_mision pid d)) pid =
           filter (\<lambda>x. mision_id x \<noteq> mision_id r) rs \<and>
         (distinct (pendientes_de d pid) \<longrightarrow>
            filas_pendientes (snd (completar_mision pid d)) pid = rs))"
proof -
  have uno: "get_personaje d pid = Inr (Some p) \<and> get_mision d mid = Inr (Some m) \<and>
    activa p \<noteq> None \<and> mid \<notin> set (pendientes_de d pid) \<longrightarrow>
      ordenes_de (snd (asignar_mision pid mid d)) pid =
        ordenes_de d pid @
          [if ordenes_de d pid = [] then 1 else Max (set (ordenes_de d pid)) + 1] \<and>
      (\<forall>n\<in>set (ordenes_de d pid).
         n < (if ordenes_de d pid = [] then 1 else Max (set (ordenes_de d pid)) + 1))"
  proof
    assume h: "get_personaje d pid = Inr (Some p) \<and> get_mision d mid = Inr (Some m) \<and>
      activa p \<noteq> None \<and> mid \<notin> set (pendientes_de d pid)"
    then obtain b where b: "activa p = Some b" by auto
    from h have gp: "get_personaje d pid = Inr (Some p)"
      and gm: "get_mision d mid = Inr (Some m)"
      and np: "mid \<notin> set (pendientes_de d pid)" by simp_all
    have "ordenes_de (snd (asignar_mision pid mid d)) pid =
        ordenes_de d pid @ [or_0 (sql_max (ordenes_de d pid)) + 1]"
      unfolding asignar_ocupado[OF gp gm b np] snd_conv by (simp add: ordenes_insertar)
    moreover have "\<forall>n\<in>set (ordenes_de d pid). n < or_0 (sql_max (ordenes_de d pid)) + 1"
      using max_orden_cota by blast
    ultimately show "ordenes_de (snd (asignar_mision pid mid d)) pid =
        ordenes_de d pid @
          [if ordenes_de d pid = [] then 1 else Max (set (ordenes_de d pid)) + 1] \<and>
      (\<forall>n\<in>set (ordenes_de d pid).
         n < (if ordenes_de d pid = [] then 1 else Max (set (ordenes_de d pid)) + 1))"
      unfolding or_0_sql_max by blast
  qed
  have dos: "sorted_wrt (<) (ordenes_de d pid) \<longrightarrow>
        sorted_wrt (<) (ordenes_de (ejecutar_todas ops d) pid)"
    using creciente_ejecutar_todas by blast
  have tres: "sorted_wrt (<) (ordenes_de d pid) \<longrightarrow>
        primera_por_orden (filas_pendientes d pid) =
          (case filas_pendientes d pid of [] \<Rightarrow> None | r # rs \<Rightarrow> Some r)"
  proof
    assume s: "sorted_wrt (<) (ordenes_de d pid)"
    show "primera_por_orden (filas_pendientes d pid) =
          (case filas_pendientes d pid of [] \<Rightarrow> None | r # rs \<Rightarrow> Some r)"
    proof (cases "filas_pendientes d pid")
      case Nil
      then show ?thesis by simp
    next
      case (Cons r rs)
      with s have "sorted_wrt (<) (map orden (r # rs))" by (simp add: ordenes_de_def)
      from primera_por_orden_creciente[OF this] Cons show ?thesis by simp
    qed
  qed
  have cuatro: "get_personaje d pid = Inr (Some pc) \<and> activa pc = Some a \<and>
       get_mision d a = Inr (Some ma) \<and> a \<notin> set (completadas_de d pid) \<and>
       int64 (xp pc + xp_m ma) \<and> sorted_wrt (<) (ordenes_de d pid) \<and>
       filas_pendientes d pid = r # rs \<longrightarrow>
         get_personaje (snd (completar_mision pid d)) pid =
           Inr (Some (pc\<lparr>xp := xp pc + xp_m ma, mision_activa_id := Some (mision_id r)\<rparr>)) \<and>
         filas_pendientes (snd (completar_mision pid d)) pid =
           filter (\<lambda>x. mision_id x \<noteq> mision_id r) rs \<and>
         (distinct (pendientes_de d pid) \<longrightarrow>
            filas_pendientes (snd (completar_mision pid d)) pid = rs)"
  proof
    assume h: "get_personaje d pid = Inr (Some pc) \<and> activa pc = Some a \<and>
       get_mision d a = Inr (Some ma) \<and> a \<notin> set (completadas_de d pid) \<and>
       int64 (xp pc + xp_m ma) \<and> sorted_wrt (<) (ordenes_de d pid) \<and>
       filas_pendientes d pid = r # rs"
    then have gp: "get_personaje d pid = Inr (Some pc)" and ac: "activa pc = Some a"
      and gm: "get_mision d a = Inr (Some ma)" and nc: "a \<notin> set (completadas_de d pid)"
      and rg: "int64 (xp pc + xp_m ma)" and so: "sorted_wrt (<) (ordenes_de d pid)"
      and fi: "filas_pendientes d pid = r # rs" by simp_all
    from gp have fp: "fila_personaje d pid = Some pc" and rp: "int64 pid"
      by (simp_all add: get_personaje_Inr)
    have idp: "id_p pc = pid" by (rule fila_personaje_id[OF fp])
    from so fi have "sorted_wrt (<) (map orden (r # rs))" by (simp add: ordenes_de_def)
    from primera_por_orden_creciente[OF this] fi
    have sig: "primera_por_orden (filas_pendientes d pid) = Some r" by simp
    have res: "snd (completar_mision pid d) = tras_completar pid a (xp_m ma) (Some r) d"
      unfolding completar_exito[OF gp ac gm nc rg] snd_conv sig ..
    have c1: "get_personaje (snd (completar_mision pid d)) pid =
           Inr (Some (pc\<lparr>xp := xp pc + xp_m ma, mision_activa_id := Some (mision_id r)\<rparr>))"
      unfolding res by (simp add: get_personaje_def rp tras_completar_personaje fp idp)
    have c2: "filas_pendientes (snd (completar_mision pid d)) pid =
           filter (\<lambda>x. mision_id x \<noteq> mision_id r) rs"
      unfolding res by (simp add: tras_completar_filas fi)
    have c3: "distinct (pendientes_de d pid) \<longrightarrow>
            filas_pendientes (snd (completar_mision pid d)) pid = rs"
    proof
      assume "distinct (pendientes_de d pid)"
      with fi have "mision_id r \<notin> mision_id ` set rs" by (simp add: pendientes_de_def)
      then have "filter (\<lambda>x. mision_id x \<noteq> mision_id r) rs = rs"
        by (force simp: filter_id_conv image_iff)
      with c2 show "filas_pendientes (snd (completar_mision pid d)) pid = rs" by simp
    qed
    from c1 c2 c3 show "get_personaje (snd (completar_mision pid d)) pid =
           Inr (Some (pc\<lparr>xp := xp pc + xp_m ma, mision_activa_id := Some (mision_id r)\<rparr>)) \<and>
         filas_pendientes (snd (completar_mision pid d)) pid =
           filter (\<lambda>x. mision_id x \<noteq> mision_id r) rs \<and>
         (distinct (pendientes_de d pid) \<longrightarrow>
            filas_pendientes (snd (completar_mision pid d)) pid = rs)" by blast
  qed
  from uno dos tres cuatro show ?thesis by blast
qed

theorem orden_creciente_witness:
  "get_personaje (ejecutar_todas [Asignar 1 1, Asignar 1 2] db_inicial) 1 =
      Inr (Some \<lparr>id_p = 1, nombre = ''Heroe'', xp = 0, mision_activa_id = Some 1\<rparr>)
   \<and> get_mision (ejecutar_todas [Asignar 1 1, Asignar 1 2] db_inicial) 3 =
      Inr (Some \<lparr>id_m = 3, titulo = ''Cueva'', xp_m = 30\<rparr>)
   \<and> activa \<lparr>id_p = 1, nombre = ''Heroe'', xp = 0, mision_activa_id = Some 1\<rparr> \<noteq> None
   \<and> 3 \<notin> set (pendientes_de (ejecutar_todas [Asignar 1 1, Asignar 1 2] db_inicial) 1)
   \<and> ordenes_de (ejecutar_todas [Asignar 1 1, Asignar 1 2] db_inicial) 1 = [1]
   \<and> ordenes_de (snd (asignar_mision 1 3 (ejecutar_todas [Asignar 1 1, Asignar 1 2] db_inicial))) 1
       = [1, 2]
   \<and> sorted_wrt (<) (ordenes_de (ejecutar_todas [Asignar 1 1, Asignar 1 2] db_inicial) 1)
   \<and> sorted_wrt (<)
       (ordenes_de (ejecutar_todas [Asignar 1 3, Completar 1, Asignar 1 1]
          (ejecutar_todas [Asignar 1 1, Asignar 1 2] db_inicial)) 1)
   \<and> primera_por_orden (filas_pendientes (ejecutar_todas [Asignar 1 1, Asignar 1 2] db_inicial) 1)
       = Some \<lparr>personaje_id = 1, mision_id = 2, orden = 1\<rparr>
   \<and> get_mision (ejecutar_todas [Asignar 1 1, Asignar 1 3, Asignar 1 2] db_inicial) 1 =
      Inr (Some \<lparr>id_m = 1, titulo = ''Tutorial'', xp_m = 10\<rparr>)
   \<and> filas_pendientes (ejecutar_todas [Asignar 1 1, Asignar 1 3, Asignar 1 2] db_inicial) 1 =
      [\<lparr>personaje_id = 1, mision_id = 3, orden = 1\<rparr>,
       \<lparr>personaje_id = 1, mision_id = 2, orden = 2\<rparr>]
   \<and> get_personaje
        (snd (completar_mision 1
           (ejecutar_todas [Asignar 1 1, Asignar 1 3, Asignar 1 2] db_inicial))) 1 =
      Inr (Some \<lparr>id_p = 1, nombre = ''Heroe'', xp = 10, mision_activa_id = Some 3\<rparr>)
   \<and> filas_pendientes
        (snd (completar_mision 1
           (ejecutar_todas [Asignar 1 1, Asignar 1 3, Asignar 1 2] db_inicial))) 1 =
      [\<lparr>personaje_id = 1, mision_id = 2, orden = 2\<rparr>]"
proof -
  let ?d = "ejecutar_todas [Asignar 1 1, Asignar 1 2] db_inicial"
  let ?e = "ejecutar_todas [Asignar 1 1, Asignar 1 3, Asignar 1 2] db_inicial"
  let ?p = "\<lparr>id_p = 1, nombre = ''Heroe'', xp = 0, mision_activa_id = Some 1\<rparr>"
  let ?m = "\<lparr>id_m = 3, titulo = ''Cueva'', xp_m = 30\<rparr>"
  let ?t = "\<lparr>id_m = 1, titulo = ''Tutorial'', xp_m = 10\<rparr>"
  let ?r = "\<lparr>personaje_id = 1, mision_id = 3, orden = 1\<rparr>"
  let ?rs = "[\<lparr>personaje_id = 1, mision_id = 2, orden = 2\<rparr>]"
  let ?ops = "[Asignar 1 3, Completar 1, Asignar 1 1]"
  have h1: "get_personaje ?d 1 = Inr (Some ?p)" by code_simp
  have h2: "get_mision ?d 3 = Inr (Some ?m)" by code_simp
  have h3: "activa ?p \<noteq> None" by code_simp
  have h4: "3 \<notin> set (pendientes_de ?d 1)" by code_simp
  have h5: "ordenes_de ?d 1 = [1]" by code_simp
  have h6: "sorted_wrt (<) (ordenes_de ?d 1)" unfolding h5 by simp
  have h7: "filas_pendientes ?d 1 = [\<lparr>personaje_id = 1, mision_id = 2, orden = 1\<rparr>]"
    by code_simp
  have e1: "get_personaje ?e 1 = Inr (Some ?p)" by code_simp
  have e2: "activa ?p = Some 1" by code_simp
  have e3: "get_mision ?e 1 = Inr (Some ?t)" by code_simp
  have e4: "1 \<notin> set (completadas_de ?e 1)" by code_simp
  have e5: "int64 (xp ?p + xp_m ?t)" by code_simp
  have e6: "sorted_wrt (<) (ordenes_de ?e 1)" by code_simp
  have e7: "filas_pendientes ?e 1 = ?r # ?rs" by code_simp
  have e8: "distinct (pendientes_de ?e 1)" by code_simp
  note t = orden_creciente[of ?d 1 ?p 3 ?m ?ops]
  from t h1 h2 h3 h4 have "ordenes_de (snd (asignar_mision 1 3 ?d)) 1 =
        ordenes_de ?d 1 @ [if ordenes_de ?d 1 = [] then 1 else Max (set (ordenes_de ?d 1)) + 1]"
    by blast
  then have c1: "ordenes_de (snd (asignar_mision 1 3 ?d)) 1 = [1, 2]"
    unfolding h5 by simp
  from t h6 have c2: "sorted_wrt (<) (ordenes_de (ejecutar_todas ?ops ?d) 1)" by blast
  from t h6 have "primera_por_orden (filas_pendientes ?d 1) =
          (case filas_pendientes ?d 1 of [] \<Rightarrow> None | r # rs \<Rightarrow> Some r)" by blast
  then have c3: "primera_por_orden (filas_pendientes ?d 1)
       = Some \<lparr>personaje_id = 1, mision_id = 2, orden = 1\<rparr>"
    unfolding h7 by simp
  note u = orden_creciente[of ?e 1 _ _ _ _ ?p 1 ?t ?r ?rs]
  from u e1 e2 e3 e4 e5 e6 e7
  have "get_personaje (snd (completar_mision 1 ?e)) 1 =
      Inr (Some (?p\<lparr>xp := xp ?p + xp_m ?t, mision_activa_id := Some (mision_id ?r)\<rparr>))"
    by blast
  then have c4: "get_personaje (snd (completar_mision 1 ?e)) 1 =
      Inr (Some \<lparr>id_p = 1, nombre = ''Heroe'', xp = 10, mision_activa_id = Some 3\<rparr>)"
    by simp
  from u e1 e2 e3 e4 e5 e6 e7 e8
  have c5: "filas_pendientes (snd (completar_mision 1 ?e)) 1 = ?rs" by blast
  from h1 h2 h3 h4 h5 h6 c1 c2 c3 e3 e7 c4 c5 show ?thesis by simp
qed

text \<open>
  Mission 2 is queued with number 1 and promoted; mission 3, queued afterwards, gets
  number 1 again.
\<close>

theorem orden_reutilizado:
  "filas_pendientes (ejecutar_todas [Asignar 1 1, Asignar 1 2] db_inicial) 1 =
      [\<lparr>personaje_id = 1, mision_id = 2, orden = 1\<rparr>]
   \<and> filas_pendientes (ejecutar_todas [Asignar 1 1, Asignar 1 2, Completar 1] db_inicial) 1 = []
   \<and> filas_pendientes
       (ejecutar_todas [Asignar 1 1, Asignar 1 2, Completar 1, Asignar 1 3] db_inicial) 1 =
      [\<lparr>personaje_id = 1, mision_id = 3, orden = 1\<rparr>]"
  by code_simp


section \<open>Completion\<close>

text \<open>
  C2 (amended). For a character whose active mission \<open>q\<close> is in the catalog and not yet
  among its completed missions, and whose experience plus the reward of \<open>q\<close> is within the
  64-bit range of the storage's integers, \<^verbatim>\<open>completar_mision\<close> returns the reward of \<open>q\<close>
  as \<^verbatim>\<open>xp_ganada\<close> and the new total as \<^verbatim>\<open>xp_total\<close>, adds \<open>q\<close> to the completed
  missions, and adds the reward to the character's experience. With an empty pending queue
  the character is left without active mission; otherwise a pending row of least sequence
  number becomes the active mission and leaves the queue. When the new total is outside
  the 64-bit range the call fails with the storage's overflow error and changes nothing.
\<close>

theorem completar_mision_ok:
  assumes "get_personaje d pid = Inr (Some p)" and "activa p = Some q"
    and "get_mision d q = Inr (Some m)" and "q \<notin> set (completadas_de d pid)"
  shows "(int64 (xp p + xp_m m) \<longrightarrow>
       fst (completar_mision pid d) = Inr \<lparr>xp_ganada = xp_m m, xp_total = xp p + xp_m m\<rparr>
     \<and> completadas_de (snd (completar_mision pid d)) pid = completadas_de d pid @ [q]
     \<and> map_option xp (fila_personaje (snd (completar_mision pid d)) pid) = Some (xp p + xp_m m)
     \<and> (filas_pendientes d pid = [] \<longrightarrow>
          map_option mision_activa_id (fila_personaje (snd (completar_mision pid d)) pid)
            = Some None \<and>
          filas_pendientes (snd (completar_mision pid d)) pid = [])
     \<and> (filas_pendientes d pid \<noteq> [] \<longrightarrow>
          (\<exists>r\<in>set (filas_pendientes d pid).
              (\<forall>r'\<in>set (filas_pendientes d pid). orden r \<le> orden r') \<and>
              map_option mision_activa_id (fila_personaje (snd (completar_mision pid d)) pid)
                = Some (Some (mision_id r)) \<and>
              filas_pendientes (snd (completar_mision pid d)) pid =
                filter (\<lambda>x. mision_id x \<noteq> mision_id r) (filas_pendientes d pid))))
   \<and> (\<not> int64 (xp p + xp_m m) \<longrightarrow>
       completar_mision pid d =
         (Inl (HTTPException 500 (Error_completando_mision OverflowError)), d))"
proof -
  let ?sig = "primera_por_orden (filas_pendientes d pid)"
  let ?d' = "tras_completar pid q (xp_m m) ?sig d"
  let ?p' = "p\<lparr>xp := xp p + xp_m m, mision_activa_id := map_option mision_id ?sig\<rparr>"
  from assms(1) have fp: "fila_personaje d pid = Some p" by (simp add: get_personaje_Inr)
  have idp: "id_p p = pid" by (rule fila_personaje_id[OF fp])
  have gp: "fila_personaje ?d' pid = Some ?p'"
    by (simp add: tras_completar_personaje fp idp)
  have vacia: "filas_pendientes d pid = [] \<longrightarrow>
      map_option mision_activa_id (fila_personaje ?d' pid) = Some None \<and>
      filas_pendientes ?d' pid = []"
    using gp by (auto simp: tras_completar_filas)
  have llena: "filas_pendientes d pid \<noteq> [] \<longrightarrow>
      (\<exists>r\<in>set (filas_pendientes d pid).
          (\<forall>r'\<in>set (filas_pendientes d pid). orden r \<le> orden r') \<and>
          map_option mision_activa_id (fila_personaje ?d' pid) = Some (Some (mision_id r)) \<and>
          filas_pendientes ?d' pid =
            filter (\<lambda>x. mision_id x \<noteq> mision_id r) (filas_pendientes d pid))"
  proof
    assume ne: "filas_pendientes d pid \<noteq> []"
    then obtain r where r: "?sig = Some r"
      using primera_por_orden_None[of "filas_pendientes d pid"] by (cases ?sig) auto
    from primera_por_orden_Some[OF r]
    have "r \<in> set (filas_pendientes d pid)"
      and "\<forall>r'\<in>set (filas_pendientes d pid). orden r \<le> orden r'" by simp_all
    moreover have "map_option mision_activa_id (fila_personaje ?d' pid) = Some (Some (mision_id r))"
      using gp by (simp add: r)
    moreover have "filas_pendientes ?d' pid =
        filter (\<lambda>x. mision_id x \<noteq> mision_id r) (filas_pendientes d pid)"
      by (simp add: tras_completar_filas r)
    ultimately show "\<exists>r\<in>set (filas_pendientes d pid).
          (\<forall>r'\<in>set (filas_pendientes d pid). orden r \<le> orden r') \<and>
          map_option mision_activa_id (fila_personaje ?d' pid) = Some (Some (mision_id r)) \<and>
          filas_pendientes ?d' pid =
            filter (\<lambda>x. mision_id x \<noteq> mision_id r) (filas_pendientes d pid)"
      by blast
  qed
  have comp: "completadas_de ?d' pid = completadas_de d pid @ [q]"
    by (simp add: tras_completar_completadas)
  have xp': "map_option xp (fila_personaje ?d' pid) = Some (xp p + xp_m m)"
    using gp by simp
  have dentro: "int64 (xp p + xp_m m) \<longrightarrow>
       fst (completar_mision pid d) = Inr \<lparr>xp_ganada = xp_m m, xp_total = xp p + xp_m m\<rparr>
     \<and> completadas_de (snd (completar_mision pid d)) pid = completadas_de d pid @ [q]
     \<and> map_option xp (fila_personaje (snd (completar_mision pid d)) pid) = Some (xp p + xp_m m)
     \<and> (filas_pendientes d pid = [] \<longrightarrow>
          map_option mision_activa_id (fila_personaje (snd (completar_mision pid d)) pid)
            = Some None \<and>
          filas_pendientes (snd (completar_mision pid d)) pid = [])
     \<and> (filas_pendientes d pid \<noteq> [] \<longrightarrow>
          (\<exists>r\<in>set (filas_pendientes d pid).
              (\<forall>r'\<in>set (filas_pendientes d pid). orden r \<le> orden r') \<and>
              map_option mision_activa_id (fila_personaje (snd (completar_mision pid d)) pid)
                = Some (Some (mision_id r)) \<and>
              filas_pendientes (snd (completar_mision pid d)) pid =
                filter (\<lambda>x. mision_id x \<noteq> mision_id r) (filas_pendientes d pid)))"
  proof
    assume rg: "int64 (xp p + xp_m m)"
    have res: "completar_mision pid d =
        (Inr \<lparr>xp_ganada = xp_m m, xp_total = xp p + xp_m m\<rparr>, ?d')"
      by (rule completar_exito[OF assms rg])
    show "fst (completar_mision pid d) = Inr \<lparr>xp_ganada = xp_m m, xp_total = xp p + xp_m m\<rparr>
     \<and> completadas_de (snd (completar_mision pid d)) pid = completadas_de d pid @ [q]
     \<and> map_option xp (fila_personaje (snd (completar_mision pid d)) pid) = Some (xp p + xp_m m)
     \<and> (filas_pendientes d pid = [] \<longrightarrow>
          map_option mision_activa_id (fila_personaje (snd (completar_mision pid d)) pid)
            = Some None \<and>
          filas_pendientes (snd (completar_mision pid d)) pid = [])
     \<and> (filas_pendientes d pid \<noteq> [] \<longrightarrow>
          (\<exists>r\<in>set (filas_pendientes d pid).
              (\<forall>r'\<in>set (filas_pendientes d pid). orden r \<le> orden r') \<and>
              map_option mision_activa_id (fila_personaje (snd (completar_mision pid d)) pid)
                = Some (Some (mision_id r)) \<and>
              filas_pendientes (snd (completar_mision pid d)) pid =
                filter (\<lambda>x. mision_id x \<noteq> mision_id r) (filas_pendientes d pid)))"
      unfolding res fst_conv snd_conv using comp xp' vacia llena by blast
  qed
  have fuera: "\<not> int64 (xp p + xp_m m) \<longrightarrow>
       completar_mision pid d =
         (Inl (HTTPException 500 (Error_completando_mision OverflowError)), d)"
    using assms by (simp add: completar_mision_def)
  from dentro fuera show ?thesis by blast
qed

theorem completar_mision_ok_witness:
  "get_personaje (ejecutar_todas [Asignar 1 1, Asignar 1 2, Asignar 1 3] db_inicial) 1 =
      Inr (Some \<lparr>id_p = 1, nombre = ''Heroe'', xp = 0, mision_activa_id = Some 1\<rparr>)
   \<and> activa \<lparr>id_p = 1, nombre = ''Heroe'', xp = 0, mision_activa_id = Some 1\<rparr> = Some 1
   \<and> get_mision (ejecutar_todas [Asignar 1 1, Asignar 1 2, Asignar 1 3] db_inicial) 1 =
      Inr (Some \<lparr>id_m = 1, titulo = ''Tutorial'', xp_m = 10\<rparr>)
   \<and> 1 \<notin> set (completadas_de (ejecutar_todas [Asignar 1 1, Asignar 1 2, Asignar 1 3] db_inicial) 1)
   \<and> int64 (xp \<lparr>id_p = 1, nombre = ''Heroe'', xp = 0, mision_activa_id = Some 1\<rparr> +
            xp_m \<lparr>id_m = 1, titulo = ''Tutorial'', xp_m = 10\<rparr>)
   \<and> filas_pendientes (ejecutar_todas [Asignar 1 1, Asignar 1 2, Asignar 1 3] db_inicial) 1 =
       [\<lparr>personaje_id = 1, mision_id = 2, orden = 1\<rparr>,
        \<lparr>personaje_id = 1, mision_id = 3, orden = 2\<rparr>]
   \<and> fst (completar_mision 1 (ejecutar_todas [Asignar 1 1, Asignar 1 2, Asignar 1 3] db_inicial)) =
       Inr \<lparr>xp_ganada = 10, xp_total = 10\<rparr>
   \<and> completadas_de
        (snd (completar_mision 1 (ejecutar_todas [Asignar 1 1, Asignar 1 2, Asignar 1 3] db_inicial))) 1
       = [1]
   \<and> map_option xp
        (fila_personaje
          (snd (completar_mision 1 (ejecutar_todas [Asignar 1 1, Asignar 1 2, Asignar 1 3] db_inicial))) 1)
       = Some 10
   \<and> (\<exists>r\<in>set (filas_pendientes (ejecutar_todas [Asignar 1 1, Asignar 1 2, Asignar 1 3] db_inicial) 1).
         map_option mision_activa_id
           (fila_personaje
             (snd (completar_mision 1 (ejecutar_todas [Asignar 1 1, Asignar 1 2, Asignar 1 3] db_inicial))) 1)
          = Some (Some (mision_id r)))"
proof -
  let ?d = "ejecutar_todas [Asignar 1 1, Asignar 1 2, Asignar 1 3] db_inicial"
  let ?p = "\<lparr>id_p = 1, nombre = ''Heroe'', xp = 0, mision_activa_id = Some 1\<rparr>"
  let ?m = "\<lparr>id_m = 1, titulo = ''Tutorial'', xp_m = 10\<rparr>"
  have h1: "get_personaje ?d 1 = Inr (Some ?p)" by code_simp
  have h2: "activa ?p = Some 1" by code_simp
  have h3: "get_mision ?d 1 = Inr (Some ?m)" by code_simp
  have h4: "1 \<notin> set (completadas_de ?d 1)" by code_simp
  have h5: "filas_pendientes ?d 1 =
       [\<lparr>personaje_id = 1, mision_id = 2, orden = 1\<rparr>,
        \<lparr>personaje_id = 1, mision_id = 3, orden = 2\<rparr>]" by code_simp
  have ne: "filas_pendientes ?d 1 \<noteq> []" unfolding h5 by simp
  have c0: "completadas_de ?d 1 = []" by code_simp
  have h0: "int64 (xp ?p + xp_m ?m)" by code_simp
  from completar_mision_ok[OF h1 h2 h3 h4] h0
  have t: "fst (completar_mision 1 ?d) = Inr \<lparr>xp_ganada = xp_m ?m, xp_total = xp ?p + xp_m ?m\<rparr>
     \<and> completadas_de (snd (completar_mision 1 ?d)) 1 = completadas_de ?d 1 @ [1]
     \<and> map_option xp (fila_personaje (snd (completar_mision 1 ?d)) 1) = Some (xp ?p + xp_m ?m)
     \<and> (filas_pendientes ?d 1 \<noteq> [] \<longrightarrow>
          (\<exists>r\<in>set (filas_pendientes ?d 1).
              (\<forall>r'\<in>set (filas_pendientes ?d 1). orden r \<le> orden r') \<and>
              map_option mision_activa_id (fila_personaje (snd (completar_mision 1 ?d)) 1)
                = Some (Some (mision_id r)) \<and>
              filas_pendientes (snd (completar_mision 1 ?d)) 1 =
                filter (\<lambda>x. mision_id x \<noteq> mision_id r) (filas_pendientes ?d 1)))"
    by blast
  from t have c1: "fst (completar_mision 1 ?d) = Inr \<lparr>xp_ganada = 10, xp_total = 10\<rparr>"
    by simp
  from t have c2: "completadas_de (snd (completar_mision 1 ?d)) 1 = [1]"
    unfolding c0 by simp
  from t have c3: "map_option xp (fila_personaje (snd (completar_mision 1 ?d)) 1) = Some 10"
    by simp
  from t ne have c4: "\<exists>r\<in>set (filas_pendientes ?d 1).
         map_option mision_activa_id (fila_personaje (snd (completar_mision 1 ?d)) 1)
          = Some (Some (mision_id r))"
    by blast
  from h1 h2 h3 h4 h0 h5 c1 c2 c3 c4 show ?thesis by blast
qed

text \<open>
  A completed mission can be assigned again (see C1); completing it a second time is
  refused by the primary key of the completed table: the call fails and nothing changes.
  And a reward that takes the experience past the largest 64-bit integer cannot be
  stored: with the missions ``Max'' (reward 9223372036854775807) and ``Tutorial'' (reward
  10), completing the second after the first fails and nothing changes.
\<close>

theorem completar_repetida_falla:
  "map_option activa
     (fila_personaje (ejecutar_todas [Asignar 1 1, Completar 1, Asignar 1 1] db_inicial) 1)
     = Some (Some 1)
   \<and> get_mision (ejecutar_todas [Asignar 1 1, Completar 1, Asignar 1 1] db_inicial) 1 =
      Inr (Some \<lparr>id_m = 1, titulo = ''Tutorial'', xp_m = 10\<rparr>)
   \<and> fst (completar_mision 1 (ejecutar_todas [Asignar 1 1, Completar 1, Asignar 1 1] db_inicial)) =
       Inl (HTTPException 500 (Error_completando_mision IntegrityError))
   \<and> snd (completar_mision 1 (ejecutar_todas [Asignar 1 1, Completar 1, Asignar 1 1] db_inicial)) =
       ejecutar_todas [Asignar 1 1, Completar 1, Asignar 1 1] db_inicial
   \<and> map_option xp
       (fila_personaje (ejecutar_todas [Asignar 1 1, Completar 1, Asignar 1 1] db_inicial) 1)
     = Some 10
   \<and> get_personaje
       (ejecutar_todas
          [Crear_mision ''Max'' 9223372036854775807, Asignar 1 4, Asignar 1 1, Completar 1]
          db_inicial) 1
     = Inr (Some \<lparr>id_p = 1, nombre = ''Heroe'', xp = 9223372036854775807,
                  mision_activa_id = Some 1\<rparr>)
   \<and> completadas_de
       (ejecutar_todas
          [Crear_mision ''Max'' 9223372036854775807, Asignar 1 4, Asignar 1 1, Completar 1]
          db_inicial) 1 = [4]
   \<and> completar_mision 1
       (ejecutar_todas
          [Crear_mision ''Max'' 9223372036854775807, Asignar 1 4, Asignar 1 1, Completar 1]
          db_inicial)
     = (Inl (HTTPException 500 (Error_completando_mision OverflowError)),
        ejecutar_todas
          [Crear_mision ''Max'' 9223372036854775807, Asignar 1 4, Asignar 1 1, Completar 1]
          db_inicial)"
  by code_simp


text \<open>
  C6. For a character without active mission, \<^verbatim>\<open>completar_mision\<close> fails with the
  no-active-mission error (the 400 exception, wrapped into a 500 response by the handler)
  and returns the database unchanged.
\<close>

theorem completar_sin_activa:
  "get_personaje d pid = Inr (Some p) \<Longrightarrow> activa p = None \<Longrightarrow>
   completar_mision pid d =
     (Inl (HTTPException 500 (Error_completando_mision
        (HTTPException 400 El_personaje_no_tiene_mision_activa))), d)"
  by (simp add: completar_mision_def)

theorem completar_sin_activa_witness:
  "get_personaje db_inicial 1 = Inr (Some \<lparr>id_p = 1, nombre = ''Heroe'', xp = 0, mision_activa_id = None\<rparr>)
   \<and> activa \<lparr>id_p = 1, nombre = ''Heroe'', xp = 0, mision_activa_id = None\<rparr> = None
   \<and> completar_mision 1 db_inicial =
       (Inl (HTTPException 500 (Error_completando_mision
          (HTTPException 400 El_personaje_no_tiene_mision_activa))), db_inicial)"
proof -
  have h1: "get_personaje db_inicial 1 =
      Inr (Some \<lparr>id_p = 1, nombre = ''Heroe'', xp = 0, mision_activa_id = None\<rparr>)"
    by code_simp
  have h2: "activa \<lparr>id_p = 1, nombre = ''Heroe'', xp = 0, mision_activa_id = None\<rparr> = None"
    by code_simp
  from completar_sin_activa[OF h1 h2] h1 h2 show ?thesis by blast
qed


section \<open>The record invariant\<close>

text \<open>
  C3 (amended). After every sequence of calls the pending queue of a character has no
  repeated entry. The other three parts of the invariant (the active mission is neither
  pending nor completed, no pending mission is completed) are kept by every sequence of
  calls in which no assignment is of a mission that the character holds at that moment.
\<close>

theorem invariante_sin_reasignar:
  "(distinct (pendientes_de d k) \<longrightarrow> distinct (pendientes_de (ejecutar_todas ops d) k))
   \<and> (invariante d k \<and> sin_reasignar d ops \<longrightarrow> invariante (ejecutar_todas ops d) k)"
  using distinct_ejecutar_todas[of d k ops] invariante_ejecutar_todas[of d k ops] by blast

theorem invariante_sin_reasignar_witness:
  "distinct (pendientes_de db_inicial 1)
   \<and> invariante db_inicial 1
   \<and> sin_reasignar db_inicial
       [Asignar 1 1, Asignar 1 2, Estado 1, Completar 1, Asignar 1 3, Disponibles 1, Completar 1]
   \<and> distinct (pendientes_de (ejecutar_todas
       [Asignar 1 1, Asignar 1 2, Estado 1, Completar 1, Asignar 1 3, Disponibles 1, Completar 1]
       db_inicial) 1)
   \<and> invariante (ejecutar_todas
       [Asignar 1 1, Asignar 1 2, Estado 1, Completar 1, Asignar 1 3, Disponibles 1, Completar 1]
       db_inicial) 1"
proof -
  let ?ops = "[Asignar 1 1, Asignar 1 2, Estado 1, Completar 1, Asignar 1 3, Disponibles 1,
               Completar 1]"
  have h1: "distinct (pendientes_de db_inicial 1)" by code_simp
  have h2: "invariante db_inicial 1" by code_simp
  have h3: "sin_reasignar db_inicial ?ops" by code_simp
  from invariante_sin_reasignar[of db_inicial 1 ?ops] h1 h2 h3 show ?thesis by blast
qed

text \<open>
  Assigning the active mission twice leaves it both active and pending; assigning a
  completed mission to an idle character leaves it both active and completed.
\<close>

theorem activa_tambien_pendiente:
  "map_option activa (fila_personaje (ejecutar_todas [Asignar 1 1, Asignar 1 1] db_inicial) 1)
     = Some (Some 1)
   \<and> pendientes_de (ejecutar_todas [Asignar 1 1, Asignar 1 1] db_inicial) 1 = [1]
   \<and> \<not> invariante (ejecutar_todas [Asignar 1 1, Asignar 1 1] db_inicial) 1
   \<and> map_option activa
       (fila_personaje (ejecutar_todas [Asignar 1 1, Completar 1, Asignar 1 1] db_inicial) 1)
     = Some (Some 1)
   \<and> completadas_de (ejecutar_todas [Asignar 1 1, Completar 1, Asignar 1 1] db_inicial) 1 = [1]"
  by code_simp


section \<open>The catalog\<close>

text \<open>
  C7 (amended). When the title is already used by a mission, \<^verbatim>\<open>crear_mision\<close> fails and
  adds nothing, whatever the reward: with the duplicate-title error when the parameters
  are within their declared bounds (a title of at least 3 characters, a reward above 0),
  and with the validation error otherwise, since the bounds are checked before the title
  is looked up. A call succeeds only with a title of at least 3 characters and a reward
  above 0.
\<close>

theorem crear_mision_titulo_repetido:
  "(find (\<lambda>m. titulo m = t) (misiones d) \<noteq> None \<longrightarrow>
      snd (crear_mision t x d) = d
      \<and> (\<exists>e. fst (crear_mision t x d) = Inl e)
      \<and> (3 \<le> length t \<and> 0 < x \<longrightarrow>
           fst (crear_mision t x d) =
             Inl (HTTPException 400 (Error_creando_mision
               (HTTPException 400 Ya_existe_una_mision_con_este_titulo))))
      \<and> (\<not> (3 \<le> length t \<and> 0 < x) \<longrightarrow>
           fst (crear_mision t x d) = Inl RequestValidationError))
   \<and> ((\<exists>r. fst (crear_mision t x d) = Inr r) \<longrightarrow> 3 \<le> length t \<and> 0 < x)"
  by (auto simp: crear_mision_def Let_def split: if_splits)

theorem crear_mision_titulo_repetido_witness:
  "find (\<lambda>m. titulo m = ''Tutorial'') (misiones db_inicial) \<noteq> None
   \<and> 3 \<le> length ''Tutorial'' \<and> (0::int) < 999
   \<and> crear_mision ''Tutorial'' 999 db_inicial =
       (Inl (HTTPException 400 (Error_creando_mision
          (HTTPException 400 Ya_existe_una_mision_con_este_titulo))), db_inicial)
   \<and> \<not> (3 \<le> length ''Tutorial'' \<and> (0::int) < - 5)
   \<and> crear_mision ''Tutorial'' (- 5) db_inicial = (Inl RequestValidationError, db_inicial)
   \<and> fst (crear_mision ''Torre'' 40 db_inicial) = Inr \<lparr>id_m = 4, titulo = ''Torre'', xp_m = 40\<rparr>
   \<and> 3 \<le> length ''Torre'' \<and> (0::int) < 40"
proof -
  have h1: "find (\<lambda>m. titulo m = ''Tutorial'') (misiones db_inicial) \<noteq> None" by code_simp
  have h2: "3 \<le> length ''Tutorial'' \<and> (0::int) < 999" by simp
  have h3: "\<not> (3 \<le> length ''Tutorial'' \<and> (0::int) < - 5)" by simp
  have h4: "fst (crear_mision ''Torre'' 40 db_inicial) =
      Inr \<lparr>id_m = 4, titulo = ''Torre'', xp_m = 40\<rparr>" by code_simp
  from crear_mision_titulo_repetido[of "''Tutorial''" db_inicial 999] h1 h2
  have "snd (crear_mision ''Tutorial'' 999 db_inicial) = db_inicial"
    and "fst (crear_mision ''Tutorial'' 999 db_inicial) =
           Inl (HTTPException 400 (Error_creando_mision
             (HTTPException 400 Ya_existe_una_mision_con_este_titulo)))"
    by blast+
  then have c1: "crear_mision ''Tutorial'' 999 db_inicial =
       (Inl (HTTPException 400 (Error_creando_mision
          (HTTPException 400 Ya_existe_una_mision_con_este_titulo))), db_inicial)"
    by (simp add: prod_eq_iff)
  from crear_mision_titulo_repetido[of "''Tutorial''" db_inicial "- 5"] h1 h3
  have "snd (crear_mision ''Tutorial'' (- 5) db_inicial) = db_inicial"
    and "fst (crear_mision ''Tutorial'' (- 5) db_inicial) = Inl RequestValidationError"
    by blast+
  then have c2: "crear_mision ''Tutorial'' (- 5) db_inicial =
      (Inl RequestValidationError, db_inicial)"
    by (simp add: prod_eq_iff)
  from crear_mision_titulo_repetido[of "''Torre''" db_inicial 40] h4
  have c3: "3 \<le> length ''Torre'' \<and> (0::int) < 40" by blast
  from h1 h2 h3 h4 c1 c2 c3 show ?thesis by blast
qed

text \<open>
  With a used title and the reward 0 the failure is the validation error, not the
  duplicate-title error.
\<close>

theorem titulo_repetido_xp_invalida:
  "find (\<lambda>m. titulo m = ''Tutorial'') (misiones db_inicial) =
      Some \<lparr>id_m = 1, titulo = ''Tutorial'', xp_m = 10\<rparr>
   \<and> crear_mision ''Tutorial'' 0 db_inicial = (Inl RequestValidationError, db_inicial)
   \<and> fst (crear_mision ''Tutorial'' 0 db_inicial) \<noteq>
       Inl (HTTPException 400 (Error_creando_mision
          (HTTPException 400 Ya_existe_una_mision_con_este_titulo)))"
  by code_simp


text \<open>
  C8 (amended). For an existing character, \<^verbatim>\<open>listar_misiones_disponibles\<close> returns the
  missions of the catalog for which the character has no row in the pending table and no
  row in the completed table and which are not its active mission, each as often and in
  the order in which the catalog has it, and returns the database unchanged. For an
  unknown character id within the 64-bit range of the storage's integers it fails with
  the character-not-found error (the 404 exception, wrapped into a 500 response); for an
  id outside that range the lookup itself fails, and the call fails with the overflow
  error. The order of the catalog is the order of creation: every call leaves the missions
  present in place and adds new ones at the end.
\<close>

theorem listar_misiones_disponibles_exacto:
  "(get_personaje d pid = Inr (Some p) \<longrightarrow>
      (\<exists>ms. listar_misiones_disponibles pid d = (Inr ms, d) \<and>
            ms = filter (\<lambda>m. m \<in> set ms) (misiones d) \<and>
            (\<forall>m. m \<in> set ms \<longleftrightarrow>
                  m \<in> set (misiones d) \<and> activa p \<noteq> Some (id_m m) \<and>
                  (\<forall>r\<in>set (personaje_misiones_pendientes d).
                      \<not> (personaje_id r = pid \<and> mision_id r = id_m m)) \<and>
                  (\<forall>c\<in>set (personaje_misiones_completadas d).
                      \<not> (personaje_id_c c = pid \<and> mision_id_c c = id_m m)))))
   \<and> (int64 pid \<and> get_personaje d pid = Inr None \<longrightarrow>
      listar_misiones_disponibles pid d =
        (Inl (HTTPException 500 (Error_obteniendo_misiones_disponibles
           (HTTPException 404 Personaje_no_encontrado))), d))
   \<and> (\<not> int64 pid \<longrightarrow>
      listar_misiones_disponibles pid d =
        (Inl (HTTPException 500 (Error_obteniendo_misiones_disponibles OverflowError)), d))
   \<and> (\<exists>ms. misiones (ejecutar c d) = misiones d @ ms)"
proof -
  let ?P = "\<lambda>m. id_m m \<notin> set (pendientes_de d pid) \<and> id_m m \<notin> set (completadas_de d pid) \<and>
                (case activa p of None \<Rightarrow> True | Some a \<Rightarrow> id_m m \<noteq> a)"
  let ?ms = "filter ?P (misiones d)"
  have pend: "\<And>m. id_m m \<notin> set (pendientes_de d pid) \<longleftrightarrow>
      (\<forall>r\<in>set (personaje_misiones_pendientes d).
          \<not> (personaje_id r = pid \<and> mision_id r = id_m m))"
    by (force simp: pendientes_de_def filas_pendientes_def image_iff)
  have comp: "\<And>m. id_m m \<notin> set (completadas_de d pid) \<longleftrightarrow>
      (\<forall>c\<in>set (personaje_misiones_completadas d).
          \<not> (personaje_id_c c = pid \<and> mision_id_c c = id_m m))"
    by (force simp: completadas_de_def image_iff)
  have act: "\<And>m. (case activa p of None \<Rightarrow> True | Some a \<Rightarrow> id_m m \<noteq> a) \<longleftrightarrow>
      activa p \<noteq> Some (id_m m)"
    by (cases "activa p") auto
  have mem: "\<forall>m. m \<in> set ?ms \<longleftrightarrow>
                  m \<in> set (misiones d) \<and> activa p \<noteq> Some (id_m m) \<and>
                  (\<forall>r\<in>set (personaje_misiones_pendientes d).
                      \<not> (personaje_id r = pid \<and> mision_id r = id_m m)) \<and>
                  (\<forall>c\<in>set (personaje_misiones_completadas d).
                      \<not> (personaje_id_c c = pid \<and> mision_id_c c = id_m m))"
    by (auto simp: pend comp act)
  have ord: "?ms = filter (\<lambda>m. m \<in> set ?ms) (misiones d)"
    by (rule filter_cong) auto
  have existe: "get_personaje d pid = Inr (Some p) \<longrightarrow>
      (\<exists>ms. listar_misiones_disponibles pid d = (Inr ms, d) \<and>
            ms = filter (\<lambda>m. m \<in> set ms) (misiones d) \<and>
            (\<forall>m. m \<in> set ms \<longleftrightarrow>
                  m \<in> set (misiones d) \<and> activa p \<noteq> Some (id_m m) \<and>
                  (\<forall>r\<in>set (personaje_misiones_pendientes d).
                      \<not> (personaje_id r = pid \<and> mision_id r = id_m m)) \<and>
                  (\<forall>c\<in>set (personaje_misiones_completadas d).
                      \<not> (personaje_id_c c = pid \<and> mision_id_c c = id_m m))))"
  proof
    assume gp: "get_personaje d pid = Inr (Some p)"
    then have "listar_misiones_disponibles pid d = (Inr ?ms, d)"
      by (simp add: listar_misiones_disponibles_def)
    with ord mem show "\<exists>ms. listar_misiones_disponibles pid d = (Inr ms, d) \<and>
            ms = filter (\<lambda>m. m \<in> set ms) (misiones d) \<and>
            (\<forall>m. m \<in> set ms \<longleftrightarrow>
                  m \<in> set (misiones d) \<and> activa p \<noteq> Some (id_m m) \<and>
                  (\<forall>r\<in>set (personaje_misiones_pendientes d).
                      \<not> (personaje_id r = pid \<and> mision_id r = id_m m)) \<and>
                  (\<forall>c\<in>set (personaje_misiones_completadas d).
                      \<not> (personaje_id_c c = pid \<and> mision_id_c c = id_m m)))"
      by blast
  qed
  have desconocido: "int64 pid \<and> get_personaje d pid = Inr None \<longrightarrow>
      listar_misiones_disponibles pid d =
        (Inl (HTTPException 500 (Error_obteniendo_misiones_disponibles
           (HTTPException 404 Personaje_no_encontrado))), d)"
    by (simp add: listar_misiones_disponibles_def)
  have fuera: "\<not> int64 pid \<longrightarrow>
      listar_misiones_disponibles pid d =
        (Inl (HTTPException 500 (Error_obteniendo_misiones_disponibles OverflowError)), d)"
    by (simp add: listar_misiones_disponibles_def get_personaje_def)
  from existe desconocido fuera misiones_crece[of c d] show ?thesis by blast
qed

theorem listar_misiones_disponibles_exacto_witness:
  "get_personaje
      (ejecutar_todas
         [Crear_mision ''Torre'' 40, Asignar 1 1, Asignar 1 2, Asignar 1 3, Completar 1]
         db_inicial) 1 =
      Inr (Some \<lparr>id_p = 1, nombre = ''Heroe'', xp = 10, mision_activa_id = Some 2\<rparr>)
   \<and> completadas_de
      (ejecutar_todas
         [Crear_mision ''Torre'' 40, Asignar 1 1, Asignar 1 2, Asignar 1 3, Completar 1]
         db_inicial) 1 = [1]
   \<and> pendientes_de
      (ejecutar_todas
         [Crear_mision ''Torre'' 40, Asignar 1 1, Asignar 1 2, Asignar 1 3, Completar 1]
         db_inicial) 1 = [3]
   \<and> (\<exists>ms. listar_misiones_disponibles 1
              (ejecutar_todas
                 [Crear_mision ''Torre'' 40, Asignar 1 1, Asignar 1 2, Asignar 1 3, Completar 1]
                 db_inicial) =
            (Inr ms,
             ejecutar_todas
               [Crear_mision ''Torre'' 40, Asignar 1 1, Asignar 1 2, Asignar 1 3, Completar 1]
               db_inicial) \<and>
          \<lparr>id_m = 1, titulo = ''Tutorial'', xp_m = 10\<rparr> \<notin> set ms \<and>
          \<lparr>id_m = 2, titulo = ''Dragon'', xp_m = 100\<rparr> \<notin> set ms \<and>
          \<lparr>id_m = 3, titulo = ''Cueva'', xp_m = 30\<rparr> \<notin> set ms \<and>
          \<lparr>id_m = 4, titulo = ''Torre'', xp_m = 40\<rparr> \<in> set ms)
   \<and> int64 7 \<and> get_personaje db_inicial 7 = Inr None
   \<and> listar_misiones_disponibles 7 db_inicial =
       (Inl (HTTPException 500 (Error_obteniendo_misiones_disponibles
          (HTTPException 404 Personaje_no_encontrado))), db_inicial)
   \<and> \<not> int64 9223372036854775808
   \<and> listar_misiones_disponibles 9223372036854775808 db_inicial =
       (Inl (HTTPException 500 (Error_obteniendo_misiones_disponibles OverflowError)),
        db_inicial)"
proof -
  let ?d = "ejecutar_todas
         [Crear_mision ''Torre'' 40, Asignar 1 1, Asignar 1 2, Asignar 1 3, Completar 1]
         db_inicial"
  let ?p = "\<lparr>id_p = 1, nombre = ''Heroe'', xp = 10, mision_activa_id = Some 2\<rparr>"
  let ?Q = "\<lambda>m. m \<in> set (misiones ?d) \<and> activa ?p \<noteq> Some (id_m m) \<and>
                  (\<forall>r\<in>set (personaje_misiones_pendientes ?d).
                      \<not> (personaje_id r = 1 \<and> mision_id r = id_m m)) \<and>
                  (\<forall>c\<in>set (personaje_misiones_completadas ?d).
                      \<not> (personaje_id_c c = 1 \<and> mision_id_c c = id_m m))"
  have h1: "get_personaje ?d 1 = Inr (Some ?p)" by code_simp
  have h2: "completadas_de ?d 1 = [1]" by code_simp
  have h3: "pendientes_de ?d 1 = [3]" by code_simp
  have h4: "int64 7" by code_simp
  have h5: "get_personaje db_inicial 7 = Inr None" by code_simp
  have h6: "\<not> int64 9223372036854775808" by code_simp
  have q1: "\<not> ?Q \<lparr>id_m = 1, titulo = ''Tutorial'', xp_m = 10\<rparr>" by code_simp
  have q2: "\<not> ?Q \<lparr>id_m = 2, titulo = ''Dragon'', xp_m = 100\<rparr>" by code_simp
  have q3: "\<not> ?Q \<lparr>id_m = 3, titulo = ''Cueva'', xp_m = 30\<rparr>" by code_simp
  have q4: "?Q \<lparr>id_m = 4, titulo = ''Torre'', xp_m = 40\<rparr>" by code_simp
  from listar_misiones_disponibles_exacto[of ?d 1 ?p] h1
  obtain ms where r: "listar_misiones_disponibles 1 ?d = (Inr ms, ?d)"
    and m: "\<forall>m. m \<in> set ms \<longleftrightarrow> ?Q m" by blast
  from m q1 q2 q3 q4 have
    "\<lparr>id_m = 1, titulo = ''Tutorial'', xp_m = 10\<rparr> \<notin> set ms"
    "\<lparr>id_m = 2, titulo = ''Dragon'', xp_m = 100\<rparr> \<notin> set ms"
    "\<lparr>id_m = 3, titulo = ''Cueva'', xp_m = 30\<rparr> \<notin> set ms"
    "\<lparr>id_m = 4, titulo = ''Torre'', xp_m = 40\<rparr> \<in> set ms"
    by blast+
  with r have c1: "\<exists>ms. listar_misiones_disponibles 1 ?d = (Inr ms, ?d) \<and>
          \<lparr>id_m = 1, titulo = ''Tutorial'', xp_m = 10\<rparr> \<notin> set ms \<and>
          \<lparr>id_m = 2, titulo = ''Dragon'', xp_m = 100\<rparr> \<notin> set ms \<and>
          \<lparr>id_m = 3, titulo = ''Cueva'', xp_m = 30\<rparr> \<notin> set ms \<and>
          \<lparr>id_m = 4, titulo = ''Torre'', xp_m = 40\<rparr> \<in> set ms"
    by blast
  from listar_misiones_disponibles_exacto[of db_inicial 7] h4 h5
  have c2: "listar_misiones_disponibles 7 db_inicial =
       (Inl (HTTPException 500 (Error_obteniendo_misiones_disponibles
          (HTTPException 404 Personaje_no_encontrado))), db_inicial)"
    by blast
  from listar_misiones_disponibles_exacto[of db_inicial 9223372036854775808] h6
  have c3: "listar_misiones_disponibles 9223372036854775808 db_inicial =
       (Inl (HTTPException 500 (Error_obteniendo_misiones_disponibles OverflowError)),
        db_inicial)"
    by blast
  from h1 h2 h3 c1 h4 h5 c2 h6 c3 show ?thesis by blast
qed

text \<open>
  The id 9223372036854775808 belongs to no character, and the call does not fail with the
  character-not-found error: the storage's driver refuses to bind the id.
\<close>

theorem id_fuera_de_rango:
  "fila_personaje db_inicial 9223372036854775808 = None
   \<and> listar_misiones_disponibles 9223372036854775808 db_inicial =
       (Inl (HTTPException 500 (Error_obteniendo_misiones_disponibles OverflowError)),
        db_inicial)
   \<and> fst (listar_misiones_disponibles 9223372036854775808 db_inicial) \<noteq>
       Inl (HTTPException 500 (Error_obteniendo_misiones_disponibles
          (HTTPException 404 Personaje_no_encontrado)))"
  by code_simp


section \<open>Experience\<close>

text \<open>
  C9. After every sequence of calls on an empty database the experience of every
  character is at least 0, no further call makes the experience of a character smaller,
  and a character is created with experience 0.
\<close>

theorem xp_no_decrece:
  "(\<forall>p\<in>set (personajes (ejecutar_todas ops db_vacia)). 0 \<le> xp p)
   \<and> (\<forall>p. fila_personaje (ejecutar_todas ops db_vacia) pid = Some p \<longrightarrow>
          (\<exists>p'. fila_personaje (ejecutar c (ejecutar_todas ops db_vacia)) pid = Some p' \<and>
                xp p \<le> xp p'))
   \<and> (\<forall>r d'. crear_personaje n d = (Inr r, d') \<longrightarrow>
          pc_xp r = 0 \<and>
          personajes d' = personajes d @
            [\<lparr>id_p = pc_id r, nombre = pc_nombre r, xp = 0, mision_activa_id = None\<rparr>])"
proof -
  have v: "xp_validos (ejecutar_todas ops db_vacia)"
    by (rule xp_validos_ejecutar_todas[OF xp_validos_vacia])
  then have "\<forall>p\<in>set (personajes (ejecutar_todas ops db_vacia)). 0 \<le> xp p"
    by (simp add: xp_validos_def list_all_iff)
  moreover have "\<forall>p. fila_personaje (ejecutar_todas ops db_vacia) pid = Some p \<longrightarrow>
          (\<exists>p'. fila_personaje (ejecutar c (ejecutar_todas ops db_vacia)) pid = Some p' \<and>
                xp p \<le> xp p')"
    using xp_monotona[OF v] by blast
  moreover have "\<forall>r d'. crear_personaje n d = (Inr r, d') \<longrightarrow>
          pc_xp r = 0 \<and>
          personajes d' = personajes d @
            [\<lparr>id_p = pc_id r, nombre = pc_nombre r, xp = 0, mision_activa_id = None\<rparr>]"
    using crear_personaje_casos(2)[of n d] by auto
  ultimately show ?thesis by blast
qed

theorem xp_no_decrece_witness:
  "\<lparr>id_p = 1, nombre = ''Heroe'', xp = 10, mision_activa_id = Some 2\<rparr>
     \<in> set (personajes (ejecutar_todas (preparar @ [Asignar 1 1, Asignar 1 2, Completar 1]) db_vacia))
   \<and> (0::int) \<le> xp \<lparr>id_p = 1, nombre = ''Heroe'', xp = 10, mision_activa_id = Some 2\<rparr>
   \<and> fila_personaje (ejecutar_todas (preparar @ [Asignar 1 1, Asignar 1 2, Completar 1]) db_vacia) 1
       = Some \<lparr>id_p = 1, nombre = ''Heroe'', xp = 10, mision_activa_id = Some 2\<rparr>
   \<and> (\<exists>p'. fila_personaje
              (ejecutar (Completar 1)
                 (ejecutar_todas (preparar @ [Asignar 1 1, Asignar 1 2, Completar 1]) db_vacia)) 1
             = Some p' \<and>
            xp \<lparr>id_p = 1, nombre = ''Heroe'', xp = 10, mision_activa_id = Some 2\<rparr> \<le> xp p')
   \<and> crear_personaje (Some ''Heroe'') db_vacia =
       (Inr \<lparr>pc_id = 1, pc_nombre = ''Heroe'', pc_xp = 0\<rparr>,
        db_vacia\<lparr>personajes :=
          [\<lparr>id_p = 1, nombre = ''Heroe'', xp = 0, mision_activa_id = None\<rparr>]\<rparr>)
   \<and> pc_xp \<lparr>pc_id = 1, pc_nombre = ''Heroe'', pc_xp = 0\<rparr> = 0"
proof -
  let ?ops = "preparar @ [Asignar 1 1, Asignar 1 2, Completar 1]"
  let ?p = "\<lparr>id_p = 1, nombre = ''Heroe'', xp = 10, mision_activa_id = Some 2\<rparr>"
  let ?r = "\<lparr>pc_id = 1, pc_nombre = ''Heroe'', pc_xp = 0\<rparr>"
  let ?d' = "db_vacia\<lparr>personajes :=
          [\<lparr>id_p = 1, nombre = ''Heroe'', xp = 0, mision_activa_id = None\<rparr>]\<rparr>"
  have h1: "?p \<in> set (personajes (ejecutar_todas ?ops db_vacia))" by code_simp
  have h2: "fila_personaje (ejecutar_todas ?ops db_vacia) 1 = Some ?p" by code_simp
  have h3: "crear_personaje (Some ''Heroe'') db_vacia = (Inr ?r, ?d')" by code_simp
  note t = xp_no_decrece[of ?ops 1 "Completar 1" "Some ''Heroe''" db_vacia]
  from t h1 have c1: "(0::int) \<le> xp ?p" by blast
  from t h2 have c2: "\<exists>p'. fila_personaje (ejecutar (Completar 1) (ejecutar_todas ?ops db_vacia)) 1
             = Some p' \<and> xp ?p \<le> xp p'" by blast
  from t h3 have c3: "pc_xp ?r = 0" by blast
  from h1 h2 h3 c1 c2 c3 show ?thesis by blast
qed


section \<open>The queue is first in, first out\<close>

text \<open>
  C10. Whatever sequence of \<^verbatim>\<open>enqueue\<close> and \<^verbatim>\<open>dequeue\<close> calls runs on a queue, no
  call raises, and the values the dequeues returned, followed by what is left in the queue,
  are the elements the queue started with followed by the enqueued values, in the order of
  their arrival; a \<^verbatim>\<open>dequeue\<close> on a non-empty queue returns its
  oldest element and removes exactly that one; on an empty queue \<^verbatim>\<open>dequeue\<close> and
  \<^verbatim>\<open>first\<close> return \<^verbatim>\<open>None\<close> and the queue is left as it was.
\<close>

theorem cola_fifo:
  "(\<exists>out c'. cola_run ops c0 = Inr (out, c') \<and> out @ items c' = items c0 @ enqueued ops)
   \<and> dequeue (c\<lparr>items := x # rest\<rparr>) = (Inr (Some x), c\<lparr>items := rest\<rparr>)
   \<and> first (c\<lparr>items := x # rest\<rparr>) = Inr (Some x)
   \<and> dequeue (c\<lparr>items := []\<rparr>) = (Inr None, c\<lparr>items := []\<rparr>)
   \<and> first (c\<lparr>items := []\<rparr>) = Inr None"
  using cola_run_fifo[of ops c0]
  by (simp add: dequeue_vacia dequeue_llena first_def is_empty_def)

end
